theory Spec2Isabelle
  imports Main "HOL-Library.Char_ord" "HOL-Library.List_Lexorder" "HOL-Library.Option_ord"
begin

section \<open>The benchmark notebooks of df-parallel\<close>

text \<open>
  The repository is four benchmark notebooks (2-PandasDataframe, 3-DaskDataframe,
  4-SparkDataframe, 6-DaskCudaDataframe) that papermill executes cell by cell, and one
  notebook that fetches the data. Each benchmark notebook is a straight-line script over a
  kernel namespace: it stats the TSV file, starts a timer, starts the engine, reads and
  filters the gene table, groups and counts by taxonomy id, sorts, stops the timer and
  writes one result file.

  The embedding keeps that shape. A notebook is a list of cells; a cell maps the kernel
  state to the kernel state; an exception is a value in the state that stops the execution,
  as papermill stops at the first cell that raises. The file system, the environment and
  the clock are the inputs of a run (\<open>world\<close>); standard output, the files read and the
  result files written are kept in the state.

  What the wrapped engines do is modelled at the level of a table of string cells (every
  notebook reads with \<open>dtype=str\<close>): column selection, row filter, column rename, group
  sizes, sort, with the missing values that the csv readers produce. Partitioning and lazy
  evaluation are not modelled; the model evaluates each dataframe expression where the
  notebook writes it. Engine start-up, the creation of the results directory and the
  write of the result file are taken to succeed.
\<close>

subsection \<open>Python floats, \<open>str\<close>, the format \<open>.1f\<close>, \<open>os.path.join\<close>\<close>

text \<open>
  A Python float is an IEEE 754 double. The model keeps it as a pair \<open>(m, e)\<close> of
  integers that stands for \<open>m * 2 ^ e\<close>, and computes each operation exactly before it
  rounds to the nearest double (53 significant bits, ties to even). The magnitudes that
  occur are far from overflow and from the subnormal range, which are not modelled.
\<close>

type_synonym pyfloat = "int \<times> int"

fun bit_length :: "nat \<Rightarrow> nat" where
  "bit_length n = (if n = 0 then 0 else Suc (bit_length (n div 2)))"

declare bit_length.simps [simp del]

text \<open>The quotient of \<open>a\<close> by \<open>b\<close>, rounded to the nearest integer, ties to even.\<close>

definition round_div :: "int \<Rightarrow> int \<Rightarrow> int" where
  "round_div a b =
     (let q = a div b; r = a mod b
      in if 2 * r < b then q else if b < 2 * r then q + 1
         else if even q then q else q + 1)"

definition shift :: "int \<Rightarrow> int \<Rightarrow> int" where
  "shift a k = (if 0 \<le> k then a * 2 ^ nat k else a)"

text \<open>
  The double nearest to \<open>a / b\<close>, for \<open>a \<ge> 0\<close> and \<open>b > 0\<close>: with
  \<open>2 ^ e \<le> a / b < 2 ^ (e + 1)\<close>, the quotient is scaled by \<open>2 ^ (52 - e)\<close> and rounded.
\<close>

definition nearest_float :: "int \<Rightarrow> int \<Rightarrow> pyfloat" where
  "nearest_float a b =
     (if a = 0 then (0, 0)
      else let e0 = int (bit_length (nat a)) - int (bit_length (nat b));
               e = (if shift b e0 \<le> shift a (- e0) then e0 else e0 - 1);
               k = 52 - e;
               m = round_div (shift a k) (shift b (- k))
           in if m = 2 ^ 53 then (2 ^ 52, 1 - k) else (m, - k))"

text \<open>\<open>float(i)\<close>, the conversion that \<open>int / float\<close> applies to its left operand.\<close>

definition float_of_int :: "int \<Rightarrow> pyfloat" where
  "float_of_int i = (let (m, e) = nearest_float \<bar>i\<bar> 1 in (sgn i * m, e))"

text \<open>\<open>x / y\<close> for a divisor other than zero.\<close>

definition float_div :: "pyfloat \<Rightarrow> pyfloat \<Rightarrow> pyfloat" where
  "float_div x y =
     (let (m1, e1) = x; (m2, e2) = y;
          (m, e) = nearest_float (shift \<bar>m1\<bar> (e1 - e2)) (shift \<bar>m2\<bar> (e2 - e1))
      in (sgn m1 * sgn m2 * m, e))"

text \<open>\<open>x - y\<close>.\<close>

definition float_sub :: "pyfloat \<Rightarrow> pyfloat \<Rightarrow> pyfloat" where
  "float_sub x y =
     (let (m1, e1) = x; (m2, e2) = y; e = min e1 e2;
          d = shift m1 (e1 - e) - shift m2 (e2 - e);
          (m, e') = nearest_float (shift \<bar>d\<bar> e) (shift 1 (- e))
      in (sgn d * m, e'))"

text \<open>\<open>str(n)\<close> for an integer: decimal digits, a minus sign when negative.\<close>

definition digit_char :: "nat \<Rightarrow> char" where
  "digit_char d = ''0123456789'' ! d"

fun str_nat :: "nat \<Rightarrow> string" where
  "str_nat n =
     (if n < 10 then [digit_char n] else str_nat (n div 10) @ [digit_char (n mod 10)])"

declare str_nat.simps [simp del]

definition str_int :: "int \<Rightarrow> string" where
  "str_int i = (if i < 0 then CHR ''-'' # str_nat (nat (- i)) else str_nat (nat i))"

text \<open>
  \<open>f"{x:.1f}"\<close>: the exact value of the double, rounded to one decimal, ties to even.
\<close>

definition format_1f :: "pyfloat \<Rightarrow> string" where
  "format_1f x =
     (let (m, e) = x;
          t = nat (round_div (shift (10 * \<bar>m\<bar>) e) (shift 1 (- e)))
      in (if m < 0 then ''-'' else []) @ str_nat (t div 10) @ ''.'' @ str_nat (t mod 10))"

text \<open>
  \<open>f"{os.path.getsize(filename)/1E9:.1f}"\<close>: the byte count is converted to a float,
  divided by the float \<open>1E9\<close>, and formatted.
\<close>

definition size_gb :: "nat \<Rightarrow> string" where
  "size_gb b = format_1f (float_div (float_of_int (int b)) (1000000000, 0))"

text \<open>\<open>os.path.join(a, b)\<close> on POSIX.\<close>

definition path_join :: "string \<Rightarrow> string \<Rightarrow> string" where
  "path_join a b =
     (if b \<noteq> [] \<and> hd b = CHR ''/'' then b
      else if a = [] \<or> last a = CHR ''/'' then a @ b
      else a @ ''/'' @ b)"

subsection \<open>Dataframes and the engine operations the notebooks call\<close>

text \<open>
  A cell is a string or is missing (\<open>NaN\<close> in Pandas, Dask and cuDF, \<open>null\<close> in Spark
  and in a parquet file): \<open>None\<close> stands for the missing value.
\<close>

type_synonym datum = "string option"

record dataframe =
  columns :: "string list"
  rows :: "datum list list"

text \<open>The cell of row \<open>r\<close> under the column labelled \<open>c\<close> (the first such column).\<close>

definition cell_of :: "string list \<Rightarrow> datum list \<Rightarrow> string \<Rightarrow> datum option" where
  "cell_of hdr r c = map_of (zip hdr r) c"

text \<open>A dataframe seen as a list of records, one per row, keyed by column label.\<close>

definition records :: "dataframe \<Rightarrow> (string \<rightharpoonup> datum) list" where
  "records df = map (\<lambda>r. map_of (zip (columns df) r)) (rows df)"

definition rectangular :: "dataframe \<Rightarrow> bool" where
  "rectangular df = list_all (\<lambda>r. length r = length (columns df)) (rows df)"

text \<open>
  \<open>FileNotFoundError\<close> is what \<open>os.path.getsize\<close> raises, \<open>NameError\<close> what reading an
  unbound name raises; \<open>EngineError\<close> stands for any exception raised inside a call of a
  dataframe engine, whose class depends on the engine and its version.
\<close>

datatype error = FileNotFoundError | NameError | EngineError

datatype engine = Pandas | Dask | Spark | DaskCuda

text \<open>
  The strings a csv reader takes for a missing value. No notebook passes \<open>na_values\<close>,
  \<open>keep_default_na\<close> or \<open>na_filter\<close>, so the defaults apply, also under \<open>dtype=str\<close>:
  the default list of Pandas (which Dask's reader uses too), the default list of cuDF, and
  for Spark the empty string (the default of the option \<open>nullValue\<close>).
\<close>

definition pandas_na_values :: "string list" where
  "pandas_na_values =
     [[], ''#N/A'', ''#N/A N/A'', ''#NA'', ''-1.#IND'', ''-1.#QNAN'', ''-NaN'', ''-nan'',
      ''1.#IND'', ''1.#QNAN'', ''<NA>'', ''N/A'', ''NA'', ''NULL'', ''NaN'', ''None'', ''n/a'',
      ''nan'', ''null'']"

definition cudf_na_values :: "string list" where
  "cudf_na_values =
     [[], ''#N/A'', ''#N/A N/A'', ''#NA'', ''-1.#IND'', ''-1.#QNAN'', ''-NaN'', ''-nan'',
      ''1.#IND'', ''1.#QNAN'', ''<NA>'', ''N/A'', ''NA'', ''NULL'', ''NaN'', ''n/a'', ''nan'',
      ''null'']"

definition na_values :: "engine \<Rightarrow> string list" where
  "na_values eng =
     (case eng of Pandas \<Rightarrow> pandas_na_values | Dask \<Rightarrow> pandas_na_values
      | DaskCuda \<Rightarrow> cudf_na_values | Spark \<Rightarrow> [[]])"

definition parse_na :: "string list \<Rightarrow> datum \<Rightarrow> datum" where
  "parse_na na v = (case v of None \<Rightarrow> None | Some s \<Rightarrow> if s \<in> set na then None else Some s)"

text \<open>
  \<open>read_csv(filename, usecols=column_names, dtype=str, sep="\t")\<close> on the table the file
  holds: the columns named in \<open>usecols\<close>, in the order of the file, each cell read as
  missing when it is one of the strings above; an error when the file lacks a column.
\<close>

definition keep_cells :: "string list \<Rightarrow> string list \<Rightarrow> datum list \<Rightarrow> datum list" where
  "keep_cells usecols hdr r = map snd (filter (\<lambda>(c, v). c \<in> set usecols) (zip hdr r))"

definition read_csv :: "string list \<Rightarrow> string list \<Rightarrow> dataframe \<Rightarrow> error + dataframe" where
  "read_csv na usecols t =
     (if set usecols \<subseteq> set (columns t)
      then Inr \<lparr>columns = filter (\<lambda>c. c \<in> set usecols) (columns t),
                rows = map (\<lambda>r. map (parse_na na) (keep_cells usecols (columns t) r)) (rows t)\<rparr>
      else Inl EngineError)"

text \<open>
  Spark's \<open>spark.read.option("header","true").option("sep", "\t").csv(filename)\<close>: the
  whole table, an empty cell read as \<open>null\<close>.
\<close>

definition spark_read_csv :: "dataframe \<Rightarrow> dataframe" where
  "spark_read_csv t = t\<lparr>rows := map (map (parse_na (na_values Spark))) (rows t)\<rparr>"

text \<open>
  \<open>genes.query("type_of_gene == 'protein-coding'")\<close>, the boolean mask
  \<open>genes[genes["type_of_gene"] == 'protein-coding']\<close> of the cuDF notebook and Spark's
  \<open>genes.filter("type_of_gene == 'protein-coding'")\<close>: the rows whose cell under the column
  is the value; a missing cell is not.
\<close>

definition query_eq :: "string \<Rightarrow> string \<Rightarrow> dataframe \<Rightarrow> error + dataframe" where
  "query_eq c v df =
     (if c \<in> set (columns df)
      then Inr (df\<lparr>rows := filter (\<lambda>r. cell_of (columns df) r c = Some (Some v)) (rows df)\<rparr>)
      else Inl EngineError)"

text \<open>
  \<open>filters=[[("type_of_gene", "==", "protein-coding")]]\<close>: a disjunction of conjunctions of
  comparisons. The notebooks use the operator \<open>==\<close> only.
\<close>

datatype cmp = Eq

type_synonym predicate = "string \<times> cmp \<times> string"

fun holds :: "string list \<Rightarrow> datum list \<Rightarrow> predicate \<Rightarrow> bool" where
  "holds hdr r (c, Eq, v) = (cell_of hdr r c = Some (Some v))"

definition satisfies :: "predicate list list \<Rightarrow> string list \<Rightarrow> datum list \<Rightarrow> bool" where
  "satisfies fs hdr r = list_ex (list_all (holds hdr r)) fs"

definition filter_columns :: "predicate list list \<Rightarrow> string list" where
  "filter_columns fs = map fst (concat fs)"

definition select_cells :: "string list \<Rightarrow> string list \<Rightarrow> datum list \<Rightarrow> datum list" where
  "select_cells cols hdr r = List.map_filter (cell_of hdr r) cols"

text \<open>
  \<open>read_parquet(filename, columns=column_names, filters=filters)\<close>: the rows that satisfy
  the filter, read during the load, and of them the named columns in the order asked for,
  each cell as the file stores it.
\<close>

definition read_parquet :: "string list \<Rightarrow> predicate list list \<Rightarrow> dataframe \<Rightarrow> error + dataframe" where
  "read_parquet cols fs t =
     (if set cols \<subseteq> set (columns t) \<and> set (filter_columns fs) \<subseteq> set (columns t)
      then Inr \<lparr>columns = cols,
                rows = map (select_cells cols (columns t))
                         (filter (satisfies fs (columns t)) (rows t))\<rparr>
      else Inl EngineError)"

text \<open>Spark's \<open>genes.select(column_names)\<close>.\<close>

definition select :: "string list \<Rightarrow> dataframe \<Rightarrow> error + dataframe" where
  "select cols df =
     (if set cols \<subseteq> set (columns df)
      then Inr \<lparr>columns = cols, rows = map (select_cells cols (columns df)) (rows df)\<rparr>
      else Inl EngineError)"

text \<open>
  \<open>genes.rename(columns={"#tax_id": "tax_id"})\<close> and Spark's
  \<open>withColumnRenamed("#tax_id", "tax_id")\<close>: the label is replaced wherever it stands; a
  frame without the label is returned as it is.
\<close>

definition rename_columns :: "string \<Rightarrow> string \<Rightarrow> dataframe \<Rightarrow> dataframe" where
  "rename_columns old new df = df\<lparr>columns := map (\<lambda>c. if c = old then new else c) (columns df)\<rparr>"

text \<open>\<open>df[c]\<close>: the values of a column, row by row.\<close>

definition column_values :: "dataframe \<Rightarrow> string \<Rightarrow> datum list" where
  "column_values df c = List.map_filter (\<lambda>r. cell_of (columns df) r c) (rows df)"

text \<open>
  \<open>genes.groupby("tax_id").size().reset_index()\<close> with the columns named
  \<open>tax_id\<close>, \<open>count\<close>, and Spark's \<open>groupBy(["tax_id"]).count()\<close>: one row per key with
  the number of rows that carry it. Pandas, Dask and cuDF leave out the rows whose key is
  missing (\<open>dropna=True\<close> is their default); Spark makes a group of them.
\<close>

definition groupby_size :: "bool \<Rightarrow> string \<Rightarrow> dataframe \<Rightarrow> error + (datum \<times> nat) list" where
  "groupby_size dropna key df =
     (if key \<in> set (columns df)
      then let ks = filter (\<lambda>k. \<not> dropna \<or> k \<noteq> None) (column_values df key)
           in Inr (map (\<lambda>k. (k, count_list ks k)) (sort (remdups ks)))
      else Inl EngineError)"

text \<open>
  \<open>groups.sort_values("count", ascending=False)\<close> (Spark: \<open>sort(col("count").desc())\<close>):
  by count, largest first. The engines do not fix the order among rows of equal count
  (the sort is not stable, the partitions arrive in any order): \<open>rank\<close> is the order a
  run happens to leave among them, an input of the run.
\<close>

definition sort_values_desc :: "(datum \<Rightarrow> int) \<Rightarrow> (datum \<times> nat) list \<Rightarrow> (datum \<times> nat) list" where
  "sort_values_desc rank grp =
     sort_key (\<lambda>(k, n). - int n) (sort_key (\<lambda>(k, n). rank k) grp)"

subsection \<open>The inputs of a run and the kernel state\<close>

record data_file =
  st_size :: nat
  table :: dataframe

record world =
  environ :: "string \<rightharpoonup> string"
  fs :: "string \<rightharpoonup> data_file"
  time_at_start :: pyfloat
  time_at_end :: pyfloat
  tie_rank :: "datum \<Rightarrow> int"

text \<open>
  The processing context: Dask's \<open>Client(n_workers, threads_per_worker)\<close> or Spark's
  session with its master URL; \<open>None\<close> stands for an argument that is not passed.
\<close>

datatype session = Client "int option" "int option" | SparkSession "string option"

datatype cell = IntCell int | FloatCell pyfloat | StrCell string

record result_csv =
  header :: "string list"
  body :: "cell list list"

text \<open>
  The names of the kernel namespace, and the effects of the run. Only \<open>genes\<close> can be
  read before it is assigned (the branch for an unknown format assigns nothing), so only
  it is optional.
\<close>

record nb =
  DATA_DIR :: string
  filename :: string
  file_size :: string
  RESULTS_DIR :: string
  n_cores :: int
  file_format :: string
  start :: pyfloat
  client :: "session option"
  running :: bool
  genes :: "dataframe option"
  groups :: "(datum \<times> nat) list"
  finish :: pyfloat
  stdout :: "string list"
  reads :: "string list"
  written :: "(string \<times> result_csv) list"
  exc :: "error option"

definition initial :: "int \<Rightarrow> string \<Rightarrow> nb" where
  "initial n fmt =
     \<lparr>DATA_DIR = [], filename = [], file_size = [], RESULTS_DIR = [],
      n_cores = n, file_format = fmt, start = (0, 0), client = None, running = False,
      genes = None, groups = [], finish = (0, 0), stdout = [], reads = [], written = [],
      exc = None\<rparr>"

definition raise :: "error \<Rightarrow> nb \<Rightarrow> nb" where
  "raise e s = s\<lparr>exc := Some e\<rparr>"

definition print :: "string \<Rightarrow> nb \<Rightarrow> nb" where
  "print line s = s\<lparr>stdout := stdout s @ [line]\<rparr>"

subsection \<open>The cells\<close>

definition data_dir :: "world \<Rightarrow> string" where
  "data_dir w = (case environ w ''LOCAL_SCRATCH_DIR'' of None \<Rightarrow> ''../data'' | Some d \<Rightarrow> d)"

definition tsv_path :: "world \<Rightarrow> string" where
  "tsv_path w = path_join (data_dir w) ''gene_info.tsv''"

definition parquet_path :: "world \<Rightarrow> string" where
  "parquet_path w = path_join (data_dir w) ''gene_info.parquet''"

text \<open>
  The setup cell. \<open>os.path.getsize\<close> raises \<open>FileNotFoundError\<close> when the file is
  missing, and the rest of the cell does not run.
\<close>

definition setup_cell :: "world \<Rightarrow> nb \<Rightarrow> nb" where
  "setup_cell w s =
     (let s1 = s\<lparr>DATA_DIR := data_dir w\<rparr>;
          s2 = s1\<lparr>filename := path_join (DATA_DIR s1) ''gene_info.tsv''\<rparr>
      in case fs w (filename s2) of
           None \<Rightarrow> raise FileNotFoundError s2
         | Some f \<Rightarrow> s2\<lparr>file_size := size_gb (st_size f), RESULTS_DIR := ''results''\<rparr>)"

definition start_timer :: "world \<Rightarrow> nb \<Rightarrow> nb" where
  "start_timer w s = s\<lparr>start := time_at_start w\<rparr>"

text \<open>The cell that starts the engine (the Pandas notebook has none).\<close>

definition start_engine :: "engine \<Rightarrow> world \<Rightarrow> nb \<Rightarrow> nb" where
  "start_engine eng w s =
     (case eng of
        Pandas \<Rightarrow> s
      | Spark \<Rightarrow>
          (if 0 < n_cores s
           then s\<lparr>client := Some (SparkSession (Some (''local['' @ str_int (n_cores s) @ '']''))),
                  running := True\<rparr>
           else s\<lparr>client := Some (SparkSession None), running := True\<rparr>)
      | _ \<Rightarrow>
          (if 0 < n_cores s
           then s\<lparr>client := Some (Client (Some (n_cores s)) (Some 1)), running := True\<rparr>
           else s\<lparr>client := Some (Client None None), running := True\<rparr>))"

definition column_names :: "string list" where
  "column_names =
     [''GeneID'', ''Symbol'', ''Synonyms'', ''description'', ''type_of_gene'', ''#tax_id'',
      ''chromosome'']"

definition filters :: "predicate list list" where
  "filters = [[(''type_of_gene'', Eq, ''protein-coding'')]]"

text \<open>Opening a data file: a reader that finds no file raises.\<close>

definition open_table :: "world \<Rightarrow> string \<Rightarrow> error + dataframe" where
  "open_table w p = (case fs w p of None \<Rightarrow> Inl EngineError | Some f \<Rightarrow> Inr (table f))"

text \<open>
  What a branch of the read cell makes of the table in the file: Pandas, Dask and
  Dask-cuDF read the seven columns of the TSV file and filter afterwards, or read the
  parquet file with the filter pushed into the load; Spark reads the whole table in
  either branch.
\<close>

definition read_branch :: "engine \<Rightarrow> string \<Rightarrow> dataframe \<Rightarrow> error + dataframe" where
  "read_branch eng fmt t =
     (if fmt = ''csv''
      then (if eng = Spark then Inr (spark_read_csv t)
            else (case read_csv (na_values eng) column_names t of
                    Inl e \<Rightarrow> Inl e
                  | Inr g \<Rightarrow> query_eq ''type_of_gene'' ''protein-coding'' g))
      else (if eng = Spark then Inr t else read_parquet column_names filters t))"

definition read_file :: "engine \<Rightarrow> world \<Rightarrow> string \<Rightarrow> nb \<Rightarrow> nb" where
  "read_file eng w name s =
     (let s1 = s\<lparr>filename := path_join (DATA_DIR s) name\<rparr>;
          s2 = s1\<lparr>reads := reads s1 @ [filename s1]\<rparr>
      in case open_table w (filename s2) of
           Inl e \<Rightarrow> raise e s2
         | Inr t \<Rightarrow>
             (case read_branch eng (file_format s2) t of
                Inl e \<Rightarrow> raise e s2
              | Inr g \<Rightarrow> s2\<lparr>genes := Some g\<rparr>))"

text \<open>
  The statements after the branches: the rename for Pandas, Dask and Dask-cuDF; select,
  filter and rename for Spark. They read \<open>genes\<close>, which the branch for an unknown format
  has not assigned.
\<close>

definition finish_read :: "engine \<Rightarrow> dataframe \<Rightarrow> error + dataframe" where
  "finish_read eng g =
     (if eng = Spark
      then (case select column_names g of
              Inl e \<Rightarrow> Inl e
            | Inr g1 \<Rightarrow>
                (case query_eq ''type_of_gene'' ''protein-coding'' g1 of
                   Inl e \<Rightarrow> Inl e
                 | Inr g2 \<Rightarrow> Inr (rename_columns ''#tax_id'' ''tax_id'' g2)))
      else Inr (rename_columns ''#tax_id'' ''tax_id'' g))"

definition after_read :: "engine \<Rightarrow> nb \<Rightarrow> nb" where
  "after_read eng s =
     (case genes s of
        None \<Rightarrow> raise NameError s
      | Some g \<Rightarrow>
          (case finish_read eng g of
             Inl e \<Rightarrow> raise e s
           | Inr g' \<Rightarrow> s\<lparr>genes := Some g'\<rparr>))"

text \<open>
  The read cell: the branch for the format, the print of the file name, and the
  statements after it. A branch that raises ends the cell.
\<close>

definition read_data :: "engine \<Rightarrow> world \<Rightarrow> nb \<Rightarrow> nb" where
  "read_data eng w s =
     (let s1 = (if file_format s = ''csv'' then read_file eng w ''gene_info.tsv'' s
                else if file_format s = ''parquet'' then read_file eng w ''gene_info.parquet'' s
                else print ''invalid file format'' s)
      in if exc s1 \<noteq> None then s1
         else after_read eng (print (''Filename: '' @ filename s1) s1))"

text \<open>
  The process cell, with the materialisation (\<open>compute()\<close>, \<open>toPandas()\<close>) that follows it
  in the Dask, Dask-cuDF and Spark notebooks.
\<close>

definition count_groups :: "engine \<Rightarrow> (datum \<Rightarrow> int) \<Rightarrow> dataframe \<Rightarrow> error + (datum \<times> nat) list" where
  "count_groups eng rank g =
     (case groupby_size (eng \<noteq> Spark) ''tax_id'' g of
        Inl e \<Rightarrow> Inl e
      | Inr grp \<Rightarrow> Inr (sort_values_desc rank grp))"

definition process_data :: "engine \<Rightarrow> world \<Rightarrow> nb \<Rightarrow> nb" where
  "process_data eng w s =
     (case genes s of
        None \<Rightarrow> raise NameError s
      | Some g \<Rightarrow>
          (case count_groups eng (tie_rank w) g of
             Inl e \<Rightarrow> raise e s
           | Inr grp \<Rightarrow> s\<lparr>groups := grp\<rparr>))"

text \<open>\<open>client.close()\<close>, \<open>spark.stop()\<close>.\<close>

definition stop_engine :: "world \<Rightarrow> nb \<Rightarrow> nb" where
  "stop_engine w s = s\<lparr>running := False\<rparr>"

definition stop_timer :: "world \<Rightarrow> nb \<Rightarrow> nb" where
  "stop_timer w s = s\<lparr>finish := time_at_end w\<rparr>"

definition notebook_name :: "engine \<Rightarrow> string" where
  "notebook_name eng =
     (case eng of Pandas \<Rightarrow> ''2-PandasDataframe'' | Dask \<Rightarrow> ''3-DaskDataframe''
      | Spark \<Rightarrow> ''4-SparkDataframe'' | DaskCuda \<Rightarrow> ''6-DaskCudaDataframe'')"

definition engine_label :: "engine \<Rightarrow> string" where
  "engine_label eng =
     (case eng of Pandas \<Rightarrow> ''Pandas'' | Dask \<Rightarrow> ''Dask'' | Spark \<Rightarrow> ''Spark''
      | DaskCuda \<Rightarrow> ''DaskCuda'')"

definition result_header :: "string list" where
  "result_header = [''cores'', ''time'', ''size'', ''format'', ''dataframe'']"

text \<open>
  \<open>pd.DataFrame([{...}]).to_csv(os.path.join(RESULTS_DIR, output_file), index=False)\<close>:
  the header and one row.
\<close>

definition to_csv :: "int \<Rightarrow> string \<Rightarrow> string \<Rightarrow> nb \<Rightarrow> nb" where
  "to_csv cores label output_file s =
     s\<lparr>written := written s @
          [(path_join (RESULTS_DIR s) output_file,
            \<lparr>header = result_header,
             body = [[IntCell cores, FloatCell (float_sub (finish s) (start s)),
                      StrCell (file_size s), StrCell (file_format s), StrCell label]]\<rparr>)]\<rparr>"

text \<open>
  The result cell. The Pandas notebook writes always, with the core count 1 in the row
  and in the file name; the others write when \<open>n_cores > 0\<close>.
\<close>

definition write_result :: "engine \<Rightarrow> world \<Rightarrow> nb \<Rightarrow> nb" where
  "write_result eng w s =
     (if eng = Pandas
      then to_csv 1 ''Pandas''
             (''2-PandasDataframe_'' @ file_size s @ ''_'' @ file_format s @ ''_1.csv'') s
      else if 0 < n_cores s
      then to_csv (n_cores s) (engine_label eng)
             (notebook_name eng @ ''_'' @ file_size s @ ''_'' @ file_format s @ ''_''
                @ str_int (n_cores s) @ ''.csv'') s
      else s)"

definition report :: "engine \<Rightarrow> world \<Rightarrow> nb \<Rightarrow> nb" where
  "report eng w s =
     print ((if eng = DaskCuda then ''Dask-cuDF'' else engine_label eng) @ '': ''
              @ format_1f (float_sub (finish s) (start s)) @ '' sec.'') s"

subsection \<open>Running a notebook\<close>

text \<open>
  The cells in the order of the notebook. Cells that only display a value
  (\<open>genes.head()\<close>, \<open>groups.query("tax_id == '9606'")\<close>, \<open>groups.head()\<close>) change no name
  and no file and are left out.
\<close>

definition cells :: "engine \<Rightarrow> (world \<Rightarrow> nb \<Rightarrow> nb) list" where
  "cells eng =
     (if eng = Pandas
      then [setup_cell, start_timer, read_data eng, process_data eng, stop_timer,
            write_result eng, report eng]
      else [setup_cell, start_timer, start_engine eng, read_data eng, process_data eng,
            stop_engine, stop_timer, write_result eng, report eng])"

fun execute :: "world \<Rightarrow> (world \<Rightarrow> nb \<Rightarrow> nb) list \<Rightarrow> nb \<Rightarrow> nb" where
  "execute w [] s = s"
| "execute w (c # cs) s = (let s' = c w s in if exc s' = None then execute w cs s' else s')"

text \<open>A papermill run with the parameters \<open>n_cores\<close> and \<open>file_format\<close>.\<close>

definition run :: "engine \<Rightarrow> world \<Rightarrow> int \<Rightarrow> string \<Rightarrow> nb" where
  "run eng w n fmt = execute w (cells eng) (initial n fmt)"

subsection \<open>A small world for concrete runs\<close>

text \<open>A row of strings, none missing.\<close>

definition texts :: "string list \<Rightarrow> datum list" where
  "texts vs = map Some vs"

definition gene_table :: dataframe where
  "gene_table =
     \<lparr>columns = [''#tax_id'', ''GeneID'', ''Symbol'', ''LocusTag'', ''Synonyms'', ''chromosome'',
                 ''description'', ''type_of_gene''],
      rows = [texts [''9606'', ''1'', ''A1BG'', ''-'', ''A1B'', ''19'', ''alpha-1-B glycoprotein'',
                     ''protein-coding''],
              texts [''9606'', ''3'', ''A2MP1'', ''-'', ''A2MP'', ''12'',
                     ''alpha-2-macroglobulin pseudogene 1'', ''pseudo''],
              texts [''4565'', ''543004'', ''LOC543004'', ''-'', ''-'', ''Un'', ''puroindoline-b'',
                     ''protein-coding''],
              texts [''9606'', ''2'', ''A2M'', ''-'', ''A2MD'', ''12'', ''alpha-2-macroglobulin'',
                     ''protein-coding'']]\<rparr>"

text \<open>
  A table with cells that the csv readers of Pandas, Dask and cuDF take for missing: a
  symbol \<open>NA\<close> in the second row, a taxonomy id \<open>NA\<close> in the third.
\<close>

definition na_table :: dataframe where
  "na_table =
     \<lparr>columns = [''#tax_id'', ''GeneID'', ''Symbol'', ''LocusTag'', ''Synonyms'', ''chromosome'',
                 ''description'', ''type_of_gene''],
      rows = [texts [''9606'', ''1'', ''A1BG'', ''-'', ''A1B'', ''19'', ''alpha-1-B glycoprotein'',
                     ''protein-coding''],
              texts [''9606'', ''7'', ''NA'', ''-'', ''-'', ''1'', ''hypothetical protein'',
                     ''protein-coding''],
              texts [''NA'', ''8'', ''abc'', ''-'', ''-'', ''2'', ''hypothetical protein'',
                     ''protein-coding'']]\<rparr>"

definition world0 :: world where
  "world0 =
     \<lparr>environ = Map.empty,
      fs = [''../data/gene_info.tsv'' \<mapsto> \<lparr>st_size = 6500000000, table = gene_table\<rparr>,
            ''../data/gene_info.parquet'' \<mapsto> \<lparr>st_size = 4096, table = gene_table\<rparr>],
      time_at_start = float_of_int 1700000000, time_at_end = float_of_int 1700000018,
      tie_rank = (\<lambda>k. 0)\<rparr>"

text \<open>The same world with the parquet file only.\<close>

definition world_without_tsv :: world where
  "world_without_tsv =
     world0\<lparr>fs := [''../data/gene_info.parquet'' \<mapsto> \<lparr>st_size = 4096, table = gene_table\<rparr>]\<rparr>"

text \<open>The same world with the TSV file only.\<close>

definition world_without_parquet :: world where
  "world_without_parquet =
     world0\<lparr>fs := [''../data/gene_info.tsv'' \<mapsto> \<lparr>st_size = 6500000000, table = gene_table\<rparr>]\<rparr>"

text \<open>The same world with a TSV file that is 40 MB larger.\<close>

definition world_larger_tsv :: world where
  "world_larger_tsv =
     world0\<lparr>fs := [''../data/gene_info.tsv'' \<mapsto> \<lparr>st_size = 6540000000, table = gene_table\<rparr>,
                   ''../data/gene_info.parquet'' \<mapsto> \<lparr>st_size = 4096, table = gene_table\<rparr>]\<rparr>"

text \<open>A filtered and renamed frame, as the process cell receives it.\<close>

definition small_genes :: dataframe where
  "small_genes =
     \<lparr>columns = [''tax_id'', ''GeneID'', ''type_of_gene''],
      rows = [texts [''9606'', ''1'', ''protein-coding''],
              texts [''4565'', ''543004'', ''protein-coding''],
              texts [''9606'', ''2'', ''protein-coding'']]\<rparr>"

text \<open>
  The frames that the csv branch and the parquet branch of the Pandas read cell return on
  \<open>na_table\<close>, and the first of them after the rename.
\<close>

definition na_frame_csv :: dataframe where
  "na_frame_csv =
     \<lparr>columns = [''#tax_id'', ''GeneID'', ''Symbol'', ''Synonyms'', ''chromosome'', ''description'',
                 ''type_of_gene''],
      rows = [[Some ''9606'', Some ''1'', Some ''A1BG'', Some ''A1B'', Some ''19'',
               Some ''alpha-1-B glycoprotein'', Some ''protein-coding''],
              [Some ''9606'', Some ''7'', None, Some ''-'', Some ''1'',
               Some ''hypothetical protein'', Some ''protein-coding''],
              [None, Some ''8'', Some ''abc'', Some ''-'', Some ''2'',
               Some ''hypothetical protein'', Some ''protein-coding'']]\<rparr>"


definition na_genes :: dataframe where
  "na_genes =
     \<lparr>columns = [''tax_id'', ''GeneID'', ''Symbol'', ''Synonyms'', ''chromosome'', ''description'',
                 ''type_of_gene''],
      rows = [[Some ''9606'', Some ''1'', Some ''A1BG'', Some ''A1B'', Some ''19'',
               Some ''alpha-1-B glycoprotein'', Some ''protein-coding''],
              [Some ''9606'', Some ''7'', None, Some ''-'', Some ''1'',
               Some ''hypothetical protein'', Some ''protein-coding''],
              [None, Some ''8'', Some ''abc'', Some ''-'', Some ''2'',
               Some ''hypothetical protein'', Some ''protein-coding'']]\<rparr>"

text \<open>Reading decimal digits back, for the proofs about \<open>str_nat\<close>.\<close>

definition nat_of_digits :: "string \<Rightarrow> nat" where
  "nat_of_digits s = foldl (\<lambda>a c. 10 * a + (of_char c - 48)) 0 s"

section \<open>Properties\<close>

subsection \<open>Decimal rendering\<close>

lemma less_10_cases: "(d::nat) < 10 \<Longrightarrow> d = 0 \<or> d = 1 \<or> d = 2 \<or> d = 3 \<or> d = 4 \<or> d = 5 \<or> d = 6 \<or> d = 7 \<or> d = 8 \<or> d = 9"
  by arith

lemma digit_char_in: "d < 10 \<Longrightarrow> digit_char d \<in> set ''0123456789''"
  using less_10_cases [of d] by (auto simp: digit_char_def)

lemma of_char_digit_char: "d < 10 \<Longrightarrow> of_char (digit_char d) = (48 + d :: nat)"
  using less_10_cases [of d] by (auto simp: digit_char_def)

lemma set_str_nat: "set (str_nat n) \<subseteq> set ''0123456789''"
proof (induction n rule: str_nat.induct)
  case (1 n)
  show ?case
  proof (cases "n < 10")
    case True
    then show ?thesis
      using digit_char_in [of n] by (subst str_nat.simps) simp
  next
    case False
    have "n mod 10 < 10" by simp
    then have "digit_char (n mod 10) \<in> set ''0123456789''" by (rule digit_char_in)
    with False 1 show ?thesis
      by (subst str_nat.simps) simp
  qed
qed

lemma nat_of_digits_str_nat: "nat_of_digits (str_nat n) = n"
proof (induction n rule: str_nat.induct)
  case (1 n)
  show ?case
  proof (cases "n < 10")
    case True
    then show ?thesis
      by (subst str_nat.simps) (simp add: nat_of_digits_def of_char_digit_char)
  next
    case False
    have m: "n mod 10 < 10" by simp
    from False 1 have "nat_of_digits (str_nat (n div 10)) = n div 10" by simp
    with False m show ?thesis
      by (subst str_nat.simps) (simp add: nat_of_digits_def of_char_digit_char)
  qed
qed

lemma str_nat_inj: "str_nat n = str_nat m \<Longrightarrow> n = m"
  by (metis nat_of_digits_str_nat)

lemma str_int_inj: "0 \<le> i \<Longrightarrow> 0 \<le> j \<Longrightarrow> str_int i = str_int j \<Longrightarrow> i = j"
  by (auto simp: str_int_def dest: str_nat_inj)

lemma underscore_str_nat: "CHR ''_'' \<notin> set (str_nat n)"
  using set_str_nat [of n] by auto

lemma underscore_str_int: "CHR ''_'' \<notin> set (str_int i)"
  by (simp add: str_int_def underscore_str_nat)

lemma underscore_format_1f: "CHR ''_'' \<notin> set (format_1f x)"
  by (cases x) (simp add: format_1f_def Let_def underscore_str_nat)

lemma underscore_size_gb: "CHR ''_'' \<notin> set (size_gb b)"
  by (simp add: size_gb_def underscore_format_1f)

lemma split_at_first:
  "x \<notin> set a \<Longrightarrow> x \<notin> set a' \<Longrightarrow> a @ x # b = a' @ x # b' \<Longrightarrow> a = a' \<and> b = b'"
proof (induction a arbitrary: a')
  case Nil
  then show ?case by (cases a') auto
next
  case (Cons y a)
  then show ?case by (cases a') auto
qed

subsection \<open>Column selection\<close>

lemma zip_keep:
  "zip (filter P hdr) (map snd (filter (\<lambda>(c, v). P c) (zip hdr r))) = filter (\<lambda>(c, v). P c) (zip hdr r)"
proof (induction hdr arbitrary: r)
  case Nil
  show ?case by simp
next
  case (Cons h hdr)
  then show ?case by (cases r) auto
qed

lemma map_of_keep:
  "map_of (zip (filter (\<lambda>c. c \<in> S) hdr) (map snd (filter (\<lambda>(c, v). c \<in> S) (zip hdr r))))
     = map_of (zip hdr r) |` S"
proof -
  have eq: "map_of (filter (\<lambda>(c, v). c \<in> S) (zip hdr r)) = map_of (zip hdr r) |` S"
    using map_of_filter [of "\<lambda>c. c \<in> S" "zip hdr r"] by (simp add: case_prod_unfold)
  show ?thesis
    by (simp add: zip_keep eq)
qed

lemma map_of_zip_map_cells:
  "map_of (zip hdr (map f r)) = map_option f \<circ> map_of (zip hdr r)"
proof -
  have "zip hdr (map f r) = map (\<lambda>(c, v). (c, f v)) (zip hdr r)"
    by (simp add: zip_map2 case_prod_unfold)
  then show ?thesis
    by (simp add: map_of_map)
qed

lemma parse_na_eq: "v \<notin> set na \<Longrightarrow> parse_na na x = Some v \<longleftrightarrow> x = Some v"
  by (auto simp: parse_na_def split: option.splits)

lemma protein_coding_kept: "''protein-coding'' \<notin> set (na_values eng)"
  by (cases eng) (simp_all add: na_values_def pandas_na_values_def cudf_na_values_def)

lemma cell_of_present:
  "length r = length hdr \<Longrightarrow> c \<in> set hdr \<Longrightarrow> \<exists>v. cell_of hdr r c = Some v"
proof -
  assume len: "length r = length hdr" and c: "c \<in> set hdr"
  then have "c \<in> fst ` set (zip hdr r)"
    by (simp flip: set_map)
  then have "map_of (zip hdr r) c \<noteq> None"
    by (simp add: map_of_eq_None_iff)
  then show ?thesis
    by (auto simp: cell_of_def)
qed




lemma type_of_gene_named: "''type_of_gene'' \<in> set column_names"
  by (simp add: column_names_def)

lemma records_csv_branch:
  assumes "set column_names \<subseteq> set (columns t)" and "''protein-coding'' \<notin> set na"
  shows "\<exists>g. (case read_csv na column_names t of Inl e \<Rightarrow> Inl e
               | Inr g \<Rightarrow> query_eq ''type_of_gene'' ''protein-coding'' g) = Inr g
            \<and> set (columns g) = set column_names
            \<and> records g = map (\<lambda>m. map_option (parse_na na) \<circ> (m |` set column_names))
                 (filter (\<lambda>m. m ''type_of_gene'' = Some (Some ''protein-coding'')) (records t))"
proof -
  let ?S = "set column_names"
  let ?hdr = "filter (\<lambda>c. c \<in> ?S) (columns t)"
  let ?row = "\<lambda>r. map (parse_na na) (keep_cells column_names (columns t) r)"
  let ?g = "\<lparr>columns = ?hdr, rows = map ?row (rows t)\<rparr>"
  have rd: "read_csv na column_names t = Inr ?g"
    using assms(1) by (simp add: read_csv_def)
  have cols: "set ?hdr = ?S"
    using assms(1) by auto
  then have tg: "''type_of_gene'' \<in> set ?hdr"
    using type_of_gene_named by simp
  have rec: "map_of (zip ?hdr (?row r)) = map_option (parse_na na) \<circ> (map_of (zip (columns t) r) |` ?S)"
    for r
  proof -
    have "map_of (zip ?hdr (keep_cells column_names (columns t) r)) = map_of (zip (columns t) r) |` ?S"
      unfolding keep_cells_def by (rule map_of_keep)
    then show ?thesis
      by (simp only: map_of_zip_map_cells)
  qed
  have cell: "cell_of ?hdr (?row r) ''type_of_gene'' = Some (Some ''protein-coding'')
                \<longleftrightarrow> map_of (zip (columns t) r) ''type_of_gene'' = Some (Some ''protein-coding'')"
    for r
    unfolding cell_of_def rec using type_of_gene_named parse_na_eq [OF assms(2)]
    by (cases "map_of (zip (columns t) r) ''type_of_gene''") simp_all
  have flt: "filter (\<lambda>r. cell_of ?hdr r ''type_of_gene'' = Some (Some ''protein-coding''))
               (map ?row (rows t))
             = map ?row (filter (\<lambda>r. map_of (zip (columns t) r) ''type_of_gene''
                                   = Some (Some ''protein-coding'')) (rows t))"
    by (simp add: filter_map comp_def cell)
  have q: "query_eq ''type_of_gene'' ''protein-coding'' ?g
             = Inr \<lparr>columns = ?hdr,
                    rows = map ?row (filter (\<lambda>r. map_of (zip (columns t) r) ''type_of_gene''
                                   = Some (Some ''protein-coding'')) (rows t))\<rparr>"
    using tg by (simp add: query_eq_def flt)
  have "records \<lparr>columns = ?hdr,
                    rows = map ?row (filter (\<lambda>r. map_of (zip (columns t) r) ''type_of_gene''
                                   = Some (Some ''protein-coding'')) (rows t))\<rparr>
          = map (\<lambda>m. map_option (parse_na na) \<circ> (m |` ?S))
              (filter (\<lambda>m. m ''type_of_gene'' = Some (Some ''protein-coding'')) (records t))"
    by (simp add: records_def filter_map comp_def rec)
  with rd q cols show ?thesis
    by simp
qed


subsection \<open>Group counts\<close>

lemma sum_list_insort_key:
  "sum_list (map g (insort_key f x xs)) = g x + sum_list (map g xs)" for g :: "'a \<Rightarrow> nat"
  by (induction xs) auto

lemma sum_list_sort_key:
  "sum_list (map g (sort_key f xs)) = sum_list (map g xs)" for g :: "'a \<Rightarrow> nat"
  by (induction xs) (auto simp: sum_list_insort_key)

lemma distinct_map_sort_key:
  "distinct (map g (sort_key f xs)) = distinct (map g xs)"
  by (simp add: distinct_map)

lemma sort_values_desc_same_rows:
  "set (sort_values_desc rank grp) = set grp"
  "length (sort_values_desc rank grp) = length grp"
  "distinct (map fst (sort_values_desc rank grp)) = distinct (map fst grp)"
  "sum_list (map snd (sort_values_desc rank grp)) = sum_list (map snd grp)"
  by (simp_all add: sort_values_desc_def distinct_map_sort_key sum_list_sort_key)

lemma sorted_sort_values_desc:
  "sorted_wrt (\<lambda>a b. b \<le> a) (map snd (sort_values_desc rank grp))"
proof -
  have "sorted (map (\<lambda>(k, n). - int n) (sort_values_desc rank grp))"
    unfolding sort_values_desc_def by (rule sorted_sort_key)
  then show ?thesis
    by (simp add: sorted_map sorted_wrt_map case_prod_unfold)
qed

lemma count_list_filter:
  "count_list (filter P xs) k = (if P k then count_list xs k else 0)"
  by (induction xs) auto

lemma count_list_map:
  "count_list (map f xs) k = length (filter (\<lambda>x. f x = k) xs)"
  by (induction xs) auto

lemma column_values_map:
  assumes "rectangular g" "c \<in> set (columns g)"
  shows "column_values g c = map (\<lambda>r. the (map_of (zip (columns g) r) c)) (rows g)"
proof -
  have "List.map_filter (\<lambda>r. cell_of (columns g) r c) rs
          = map (\<lambda>r. the (map_of (zip (columns g) r) c)) rs"
    if "set rs \<subseteq> set (rows g)" for rs
    using that
  proof (induction rs)
    case Nil
    show ?case by simp
  next
    case (Cons r rs)
    then have "length r = length (columns g)"
      using assms(1) by (simp add: rectangular_def list_all_iff)
    then obtain v where "cell_of (columns g) r c = Some v"
      using cell_of_present assms(2) by blast
    with Cons show ?case by (simp add: cell_of_def)
  qed
  then show ?thesis
    by (simp add: column_values_def)
qed

lemma cell_is_the:
  assumes "rectangular g" "c \<in> set (columns g)" "r \<in> set (rows g)"
  shows "map_of (zip (columns g) r) c = Some k \<longleftrightarrow> the (map_of (zip (columns g) r) c) = k"
proof -
  have "length r = length (columns g)"
    using assms(1,3) by (simp add: rectangular_def list_all_iff)
  then obtain v where "map_of (zip (columns g) r) c = Some v"
    using cell_of_present [of r "columns g" c] assms(2) by (auto simp: cell_of_def)
  then show ?thesis by simp
qed

lemma groupby_size_sum:
  "sum_list (map snd (map (\<lambda>k. (k, count_list ks k)) (sort (remdups ks)))) = length ks"
  for ks :: "datum list"
proof -
  have "sum_list (map (count_list ks) (sort (remdups ks))) = sum (count_list ks) (set ks)"
    by (simp add: sum_list_distinct_conv_sum_set)
  also have "\<dots> = length ks"
    by (rule sum_count_set) simp_all
  finally show ?thesis
    by (simp add: comp_def)
qed

lemma count_groups_sorted:
  "count_groups eng rank g = Inr grp \<Longrightarrow> sorted_wrt (\<lambda>a b. b \<le> a) (map snd grp)"
  by (auto simp: count_groups_def sorted_sort_values_desc split: sum.splits)

lemma count_groups_rows:
  assumes "rectangular g" "''tax_id'' \<in> set (columns g)"
  shows "\<exists>grp. count_groups eng rank g = Inr grp
     \<and> distinct (map fst grp)
     \<and> (\<forall>k n. (k, n) \<in> set grp \<longleftrightarrow>
           (eng = Spark \<or> k \<noteq> None) \<and> 0 < n
           \<and> n = length (filter (\<lambda>r. map_of (zip (columns g) r) ''tax_id'' = Some k) (rows g)))
     \<and> sum_list (map snd grp)
         = length (filter (\<lambda>r. eng = Spark \<or> map_of (zip (columns g) r) ''tax_id'' \<noteq> Some None)
                     (rows g))"
proof -
  let ?cell = "\<lambda>r. map_of (zip (columns g) r) ''tax_id''"
  let ?P = "\<lambda>k :: datum. \<not> eng \<noteq> Spark \<or> k \<noteq> None"
  let ?cv = "map (\<lambda>r. the (?cell r)) (rows g)"
  let ?ks = "filter ?P ?cv"
  let ?grp = "map (\<lambda>k. (k, count_list ?ks k)) (sort (remdups ?ks))"
  note the = cell_is_the [OF assms]
  have cg: "count_groups eng rank g = Inr (sort_values_desc rank ?grp)"
    using assms(2) by (simp add: count_groups_def groupby_size_def Let_def column_values_map [OF assms])
  have cnt: "count_list ?cv k = length (filter (\<lambda>r. ?cell r = Some k) (rows g))" for k
    unfolding count_list_map using the by (intro arg_cong [where f = length] filter_cong refl) simp
  have d: "distinct (map fst ?grp)"
    by (simp add: comp_def)
  have mem: "(k, n) \<in> set ?grp \<longleftrightarrow>
           (eng = Spark \<or> k \<noteq> None) \<and> 0 < n
           \<and> n = length (filter (\<lambda>r. ?cell r = Some k) (rows g))" for k n
  proof -
    have "(k, n) \<in> set ?grp \<longleftrightarrow> k \<in> set ?ks \<and> n = count_list ?ks k"
      by auto
    also have "\<dots> \<longleftrightarrow> ?P k \<and> k \<in> set ?cv \<and> n = count_list ?cv k"
      by (auto simp: count_list_filter)
    also have "\<dots> \<longleftrightarrow> ?P k \<and> 0 < n \<and> n = count_list ?cv k"
      using count_list_0_iff [of ?cv k] by auto
    finally show ?thesis
      by (simp add: cnt)
  qed
  have "sum_list (map snd ?grp) = length ?ks"
    by (rule groupby_size_sum)
  also have "\<dots> = length (filter (\<lambda>r. eng = Spark \<or> ?cell r \<noteq> Some None) (rows g))"
  proof -
    have "filter ?P ?cv = map (\<lambda>r. the (?cell r)) (filter (\<lambda>r. ?P (the (?cell r))) (rows g))"
      by (simp add: filter_map comp_def)
    moreover have "filter (\<lambda>r. ?P (the (?cell r))) (rows g)
        = filter (\<lambda>r. eng = Spark \<or> ?cell r \<noteq> Some None) (rows g)"
      using the by (intro filter_cong refl) auto
    ultimately show ?thesis by simp
  qed
  finally have s: "sum_list (map snd ?grp)
      = length (filter (\<lambda>r. eng = Spark \<or> ?cell r \<noteq> Some None) (rows g))" .
  show ?thesis
    using cg d mem s by (simp add: sort_values_desc_same_rows)
qed

subsection \<open>The cells, one by one\<close>

lemma setup_cell_initial:
  "setup_cell w (initial n fmt) =
     (case fs w (tsv_path w) of
        None \<Rightarrow> (initial n fmt)\<lparr>DATA_DIR := data_dir w, filename := tsv_path w,
                                  exc := Some FileNotFoundError\<rparr>
      | Some f \<Rightarrow> (initial n fmt)\<lparr>DATA_DIR := data_dir w, filename := tsv_path w,
                                    file_size := size_gb (st_size f), RESULTS_DIR := ''results''\<rparr>)"
  by (simp add: setup_cell_def tsv_path_def raise_def Let_def split: option.splits)

lemma exc_simple_cells:
  "exc (start_timer w s) = exc s"
  "exc (start_engine eng w s) = exc s"
  "exc (stop_engine w s) = exc s"
  "exc (stop_timer w s) = exc s"
  "exc (write_result eng w s) = exc s"
  "exc (report eng w s) = exc s"
  by (simp_all add: start_timer_def start_engine_def stop_engine_def stop_timer_def
        write_result_def to_csv_def report_def print_def split: engine.splits)

lemma start_engine_Pandas: "start_engine Pandas w s = s"
  by (simp add: start_engine_def)

lemma run_unfold:
  "run eng w n fmt =
     (let s1 = setup_cell w (initial n fmt)
      in if exc s1 \<noteq> None then s1
         else let s3 = read_data eng w (start_engine eng w (start_timer w s1))
              in if exc s3 \<noteq> None then s3
                 else let s4 = process_data eng w s3
                      in if exc s4 \<noteq> None then s4
                         else report eng w (write_result eng w (stop_timer w
                                (if eng = Pandas then s4 else stop_engine w s4))))"
  by (cases "eng = Pandas")
     (simp_all add: run_def cells_def Let_def exc_simple_cells start_engine_Pandas)

lemma read_file_frame:
  "DATA_DIR (read_file eng w name s) = DATA_DIR s"
  "file_size (read_file eng w name s) = file_size s"
  "RESULTS_DIR (read_file eng w name s) = RESULTS_DIR s"
  "n_cores (read_file eng w name s) = n_cores s"
  "file_format (read_file eng w name s) = file_format s"
  "start (read_file eng w name s) = start s"
  "client (read_file eng w name s) = client s"
  "running (read_file eng w name s) = running s"
  "groups (read_file eng w name s) = groups s"
  "finish (read_file eng w name s) = finish s"
  "written (read_file eng w name s) = written s"
  "stdout (read_file eng w name s) = stdout s"
  by (simp_all add: read_file_def raise_def Let_def split: sum.splits)

lemma after_read_frame:
  "DATA_DIR (after_read eng s) = DATA_DIR s"
  "file_size (after_read eng s) = file_size s"
  "RESULTS_DIR (after_read eng s) = RESULTS_DIR s"
  "n_cores (after_read eng s) = n_cores s"
  "file_format (after_read eng s) = file_format s"
  "start (after_read eng s) = start s"
  "client (after_read eng s) = client s"
  "running (after_read eng s) = running s"
  "groups (after_read eng s) = groups s"
  "finish (after_read eng s) = finish s"
  "written (after_read eng s) = written s"
  "stdout (after_read eng s) = stdout s"
  "reads (after_read eng s) = reads s"
  "filename (after_read eng s) = filename s"
  by (simp_all add: after_read_def raise_def split: sum.splits option.splits)

lemma read_data_frame:
  "DATA_DIR (read_data eng w s) = DATA_DIR s"
  "file_size (read_data eng w s) = file_size s"
  "RESULTS_DIR (read_data eng w s) = RESULTS_DIR s"
  "n_cores (read_data eng w s) = n_cores s"
  "file_format (read_data eng w s) = file_format s"
  "start (read_data eng w s) = start s"
  "client (read_data eng w s) = client s"
  "running (read_data eng w s) = running s"
  "groups (read_data eng w s) = groups s"
  "finish (read_data eng w s) = finish s"
  "written (read_data eng w s) = written s"
  by (simp_all add: read_data_def Let_def read_file_frame after_read_frame print_def)

lemma process_data_frame:
  "DATA_DIR (process_data eng w s) = DATA_DIR s"
  "file_size (process_data eng w s) = file_size s"
  "RESULTS_DIR (process_data eng w s) = RESULTS_DIR s"
  "n_cores (process_data eng w s) = n_cores s"
  "file_format (process_data eng w s) = file_format s"
  "start (process_data eng w s) = start s"
  "client (process_data eng w s) = client s"
  "running (process_data eng w s) = running s"
  "finish (process_data eng w s) = finish s"
  "written (process_data eng w s) = written s"
  "stdout (process_data eng w s) = stdout s"
  "reads (process_data eng w s) = reads s"
  "genes (process_data eng w s) = genes s"
  by (simp_all add: process_data_def raise_def split: sum.splits option.splits)

lemma groups_process_data:
  "sorted_wrt (\<lambda>a b. b \<le> a) (map snd (groups s))
     \<Longrightarrow> sorted_wrt (\<lambda>a b. b \<le> a) (map snd (groups (process_data eng w s)))"
  by (auto simp: process_data_def raise_def count_groups_sorted split: sum.splits option.splits)

lemma read_data_invalid:
  assumes "file_format s \<noteq> ''csv''" "file_format s \<noteq> ''parquet''" "exc s = None" "genes s = None"
  shows "read_data eng w s =
           raise NameError (print (''Filename: '' @ filename s) (print ''invalid file format'' s))"
  using assms by (simp add: read_data_def Let_def print_def after_read_def)

lemma read_data_exc_valid:
  assumes "genes s = None" "exc (read_data eng w s) = None"
  shows "file_format s = ''csv'' \<or> file_format s = ''parquet''"
proof (rule ccontr)
  assume "\<not> ?thesis"
  then have "exc (read_data eng w s) \<noteq> None"
    using assms(1)
    by (simp add: read_data_def Let_def print_def after_read_def raise_def)
  with assms(2) show False by simp
qed

lemma read_file_missing:
  assumes "fs w (path_join (DATA_DIR s) name) = None"
  shows "exc (read_file eng w name s) = Some EngineError"
  using assms by (simp add: read_file_def open_table_def raise_def Let_def)

lemma read_data_missing_parquet:
  assumes "file_format s = ''parquet''" "fs w (path_join (DATA_DIR s) ''gene_info.parquet'') = None"
  shows "exc (read_data eng w s) = Some EngineError"
  using assms read_file_missing [of w s "''gene_info.parquet''" eng]
  by (simp add: read_data_def Let_def)

lemma read_file_ok:
  assumes "fs w (path_join (DATA_DIR s) name) = Some d" "read_branch eng (file_format s) (table d) = Inr g"
  shows "read_file eng w name s =
           s\<lparr>filename := path_join (DATA_DIR s) name,
             reads := reads s @ [path_join (DATA_DIR s) name], genes := Some g\<rparr>"
  using assms by (simp add: read_file_def open_table_def Let_def)

lemma tax_id_named: "''#tax_id'' \<in> set column_names"
  by (simp add: column_names_def)

lemma read_branch_ok:
  assumes "set column_names \<subseteq> set (columns t)"
  shows "\<exists>g. read_branch eng fmt t = Inr g
           \<and> (if eng = Spark then columns g = columns t else set (columns g) = set column_names)"
proof (cases "eng = Spark")
  case True
  then show ?thesis by (simp add: read_branch_def spark_read_csv_def)
next
  case False
  have "set (filter_columns filters) \<subseteq> set (columns t)"
    using assms type_of_gene_named by (auto simp: filter_columns_def filters_def)
  then have "\<exists>g. read_parquet column_names filters t = Inr g \<and> set (columns g) = set column_names"
    using assms by (simp add: read_parquet_def)
  moreover from records_csv_branch [OF assms protein_coding_kept]
  have "\<exists>g. (case read_csv (na_values eng) column_names t of Inl e \<Rightarrow> Inl e
               | Inr g \<Rightarrow> query_eq ''type_of_gene'' ''protein-coding'' g) = Inr g
            \<and> set (columns g) = set column_names"
    by blast
  ultimately show ?thesis
    using False by (simp add: read_branch_def)
qed

lemma finish_read_ok:
  assumes "if eng = Spark then set column_names \<subseteq> set (columns g)
           else set (columns g) = set column_names"
  shows "\<exists>g'. finish_read eng g = Inr g' \<and> ''tax_id'' \<in> set (columns g')"
proof (cases "eng = Spark")
  case True
  with assms have "set column_names \<subseteq> set (columns g)" by simp
  with True show ?thesis
    using type_of_gene_named tax_id_named
    by (simp add: finish_read_def select_def query_eq_def rename_columns_def image_iff)
next
  case False
  with assms have "''#tax_id'' \<in> set (columns g)"
    using tax_id_named by simp
  with False show ?thesis
    by (auto simp: finish_read_def rename_columns_def image_iff)
qed

lemma read_data_ok:
  assumes "exc s = None"
    and "file_format s = ''csv'' \<and> name = ''gene_info.tsv''
         \<or> file_format s = ''parquet'' \<and> name = ''gene_info.parquet''"
    and "fs w (path_join (DATA_DIR s) name) = Some d"
    and "set column_names \<subseteq> set (columns (table d))"
  shows "exc (read_data eng w s) = None
         \<and> (\<exists>g. genes (read_data eng w s) = Some g \<and> ''tax_id'' \<in> set (columns g))"
proof -
  obtain g where g: "read_branch eng (file_format s) (table d) = Inr g"
    and cols: "if eng = Spark then columns g = columns (table d)
               else set (columns g) = set column_names"
    using read_branch_ok [OF assms(4)] by blast
  from cols assms(4) have "if eng = Spark then set column_names \<subseteq> set (columns g)
           else set (columns g) = set column_names"
    by (simp split: if_splits)
  then obtain g' where g': "finish_read eng g = Inr g'" "''tax_id'' \<in> set (columns g')"
    using finish_read_ok by blast
  have rf: "read_file eng w name s =
           s\<lparr>filename := path_join (DATA_DIR s) name,
             reads := reads s @ [path_join (DATA_DIR s) name], genes := Some g\<rparr>"
    by (rule read_file_ok [OF assms(3) g])
  have "read_data eng w s = after_read eng (print (''Filename: '' @ path_join (DATA_DIR s) name)
          (s\<lparr>filename := path_join (DATA_DIR s) name,
             reads := reads s @ [path_join (DATA_DIR s) name], genes := Some g\<rparr>))"
    using assms(1,2) rf by (auto simp: read_data_def Let_def)
  then show ?thesis
    using g' assms(1) by (simp add: after_read_def print_def)
qed

lemma process_data_ok:
  assumes "genes s = Some g" "''tax_id'' \<in> set (columns g)"
  shows "exc (process_data eng w s) = exc s"
  using assms by (simp add: process_data_def count_groups_def groupby_size_def Let_def)


subsection \<open>A run, from its cells\<close>

lemma setup_cell_ok:
  "fs w (tsv_path w) = Some f \<Longrightarrow> exc (setup_cell w (initial n fmt)) = None"
  unfolding setup_cell_initial by (simp add: initial_def)

lemma before_read:
  assumes "fs w (tsv_path w) = Some f"
  shows "exc (start_engine eng w (start_timer w (setup_cell w (initial n fmt)))) = None"
    and "genes (start_engine eng w (start_timer w (setup_cell w (initial n fmt)))) = None"
    and "DATA_DIR (start_engine eng w (start_timer w (setup_cell w (initial n fmt)))) = data_dir w"
    and "file_size (start_engine eng w (start_timer w (setup_cell w (initial n fmt)))) = size_gb (st_size f)"
    and "RESULTS_DIR (start_engine eng w (start_timer w (setup_cell w (initial n fmt)))) = ''results''"
    and "n_cores (start_engine eng w (start_timer w (setup_cell w (initial n fmt)))) = n"
    and "file_format (start_engine eng w (start_timer w (setup_cell w (initial n fmt)))) = fmt"
    and "start (start_engine eng w (start_timer w (setup_cell w (initial n fmt)))) = time_at_start w"
    and "written (start_engine eng w (start_timer w (setup_cell w (initial n fmt)))) = []"
    and "stdout (start_engine eng w (start_timer w (setup_cell w (initial n fmt)))) = []"
    and "reads (start_engine eng w (start_timer w (setup_cell w (initial n fmt)))) = []"
    and "groups (start_engine eng w (start_timer w (setup_cell w (initial n fmt)))) = []"
    and "filename (start_engine eng w (start_timer w (setup_cell w (initial n fmt)))) = tsv_path w"
  using assms unfolding setup_cell_initial
  by (simp_all add: start_timer_def start_engine_def initial_def split: engine.splits)

lemma run_missing_tsv:
  assumes "fs w (tsv_path w) = None"
  shows "run eng w n fmt =
           (initial n fmt)\<lparr>DATA_DIR := data_dir w, filename := tsv_path w,
                             exc := Some FileNotFoundError\<rparr>"
  using assms by (simp add: run_unfold setup_cell_initial Let_def)

lemma path_join_results:
  "path_join ''results'' (notebook_name eng @ rest) = ''results/'' @ notebook_name eng @ rest"
  by (cases eng) (simp_all add: path_join_def notebook_name_def)

lemma written_tail:
  "written (report eng w (write_result eng w (stop_timer w s))) =
     (if eng = Pandas \<or> 0 < n_cores s
      then written s @
           [(path_join (RESULTS_DIR s)
               (notebook_name eng @ ''_'' @ file_size s @ ''_'' @ file_format s @ ''_''
                  @ str_int (if eng = Pandas then 1 else n_cores s) @ ''.csv''),
             \<lparr>header = result_header,
              body = [[IntCell (if eng = Pandas then 1 else n_cores s),
                       FloatCell (float_sub (time_at_end w) (start s)),
                       StrCell (file_size s), StrCell (file_format s),
                       StrCell (engine_label eng)]]\<rparr>)]
      else written s)"
  by (simp add: report_def print_def write_result_def to_csv_def stop_timer_def
        notebook_name_def engine_label_def str_int_def str_nat.simps digit_char_def)

lemma run_after_setup:
  assumes "fs w (tsv_path w) = Some f"
  shows "run eng w n fmt =
     (let s3 = read_data eng w (start_engine eng w (start_timer w (setup_cell w (initial n fmt))))
      in if exc s3 \<noteq> None then s3
         else let s4 = process_data eng w s3
              in if exc s4 \<noteq> None then s4
                 else report eng w (write_result eng w (stop_timer w
                        (if eng = Pandas then s4 else stop_engine w s4))))"
  using setup_cell_ok [OF assms] by (simp add: run_unfold Let_def)

lemma stop_engine_frame:
  "written (stop_engine w s) = written s"
  "n_cores (stop_engine w s) = n_cores s"
  "RESULTS_DIR (stop_engine w s) = RESULTS_DIR s"
  "file_size (stop_engine w s) = file_size s"
  "file_format (stop_engine w s) = file_format s"
  "start (stop_engine w s) = start s"
  "client (stop_engine w s) = client s"
  "groups (stop_engine w s) = groups s"
  "stdout (stop_engine w s) = stdout s"
  "reads (stop_engine w s) = reads s"
  "genes (stop_engine w s) = genes s"
  by (simp_all add: stop_engine_def)

lemma written_run_cases:
  "written (run eng w n fmt) = [] \<or>
   (\<exists>f. fs w (tsv_path w) = Some f \<and> (fmt = ''csv'' \<or> fmt = ''parquet'')
        \<and> (eng = Pandas \<or> 0 < n)
        \<and> written (run eng w n fmt) =
            [(''results/'' @ notebook_name eng @ ''_'' @ size_gb (st_size f) @ ''_'' @ fmt @ ''_''
                @ str_int (if eng = Pandas then 1 else n) @ ''.csv'',
              \<lparr>header = result_header,
               body = [[IntCell (if eng = Pandas then 1 else n),
                        FloatCell (float_sub (time_at_end w) (time_at_start w)),
                        StrCell (size_gb (st_size f)), StrCell fmt,
                        StrCell (engine_label eng)]]\<rparr>)])"
proof (cases "fs w (tsv_path w)")
  case None
  then show ?thesis
    by (simp add: run_missing_tsv initial_def)
next
  case (Some f)
  define s2 where "s2 = start_engine eng w (start_timer w (setup_cell w (initial n fmt)))"
  define s3 where "s3 = read_data eng w s2"
  define s4 where "s4 = process_data eng w s3"
  define s5 where "s5 = (if eng = Pandas then s4 else stop_engine w s4)"
  note b = before_read [OF Some, where n = n and fmt = fmt and eng = eng, folded s2_def]
  have run: "run eng w n fmt =
      (if exc s3 \<noteq> None then s3 else if exc s4 \<noteq> None then s4
       else report eng w (write_result eng w (stop_timer w s5)))"
    by (simp add: run_after_setup [OF Some] Let_def s2_def s3_def s4_def s5_def)
  have w3: "written s3 = []"
    by (simp add: s3_def read_data_frame b)
  have w4: "written s4 = []"
    by (simp add: s4_def process_data_frame w3)
  have f5: "written s5 = []" "n_cores s5 = n" "RESULTS_DIR s5 = ''results''"
    "file_size s5 = size_gb (st_size f)" "file_format s5 = fmt" "start s5 = time_at_start w"
    by (simp_all add: s5_def s4_def s3_def stop_engine_frame process_data_frame read_data_frame b)
  show ?thesis
  proof (cases "exc s3 \<noteq> None \<or> exc s4 \<noteq> None")
    case True
    then show ?thesis
      using w3 w4 by (auto simp: run)
  next
    case False
    then have "exc (read_data eng w s2) = None"
      by (simp add: s3_def)
    then have fmt: "fmt = ''csv'' \<or> fmt = ''parquet''"
      using read_data_exc_valid [of s2 eng w] b by simp
    from False have "run eng w n fmt = report eng w (write_result eng w (stop_timer w s5))"
      by (simp add: run)
    then show ?thesis
      using Some fmt by (simp add: written_tail f5 path_join_results)
  qed
qed

lemma run_succeeds:
  assumes "fs w (tsv_path w) = Some f"
    and "fmt = ''csv'' \<and> fs w (tsv_path w) = Some d
         \<or> fmt = ''parquet'' \<and> fs w (parquet_path w) = Some d"
    and "set column_names \<subseteq> set (columns (table d))"
  shows "exc (run eng w n fmt) = None"
    and "written (run eng w n fmt) =
           (if eng = Pandas \<or> 0 < n
            then [(''results/'' @ notebook_name eng @ ''_'' @ size_gb (st_size f) @ ''_'' @ fmt
                     @ ''_'' @ str_int (if eng = Pandas then 1 else n) @ ''.csv'',
                   \<lparr>header = result_header,
                    body = [[IntCell (if eng = Pandas then 1 else n),
                             FloatCell (float_sub (time_at_end w) (time_at_start w)),
                             StrCell (size_gb (st_size f)), StrCell fmt,
                             StrCell (engine_label eng)]]\<rparr>)]
            else [])"
proof -
  define s2 where "s2 = start_engine eng w (start_timer w (setup_cell w (initial n fmt)))"
  define s3 where "s3 = read_data eng w s2"
  define s4 where "s4 = process_data eng w s3"
  define s5 where "s5 = (if eng = Pandas then s4 else stop_engine w s4)"
  note b = before_read [OF assms(1), where n = n and fmt = fmt and eng = eng, folded s2_def]
  have run: "run eng w n fmt =
      (if exc s3 \<noteq> None then s3 else if exc s4 \<noteq> None then s4
       else report eng w (write_result eng w (stop_timer w s5)))"
    by (simp add: run_after_setup [OF assms(1)] Let_def s2_def s3_def s4_def s5_def)
  obtain name where name:
    "file_format s2 = ''csv'' \<and> name = ''gene_info.tsv''
       \<or> file_format s2 = ''parquet'' \<and> name = ''gene_info.parquet''"
    "fs w (path_join (DATA_DIR s2) name) = Some d"
    using assms(2) b by (auto simp: tsv_path_def parquet_path_def)
  from read_data_ok [OF b(1) name assms(3)]
  obtain g where e3: "exc s3 = None" and g: "genes s3 = Some g" "''tax_id'' \<in> set (columns g)"
    by (auto simp: s3_def)
  have e4: "exc s4 = None"
    using process_data_ok [OF g] e3 by (simp add: s4_def)
  have r: "run eng w n fmt = report eng w (write_result eng w (stop_timer w s5))"
    using e3 e4 by (simp add: run)
  have e5: "exc s5 = None"
    using e4 by (simp add: s5_def exc_simple_cells)
  show "exc (run eng w n fmt) = None"
    using e5 by (simp add: r exc_simple_cells)
  have f5: "written s5 = []" "n_cores s5 = n" "RESULTS_DIR s5 = ''results''"
    "file_size s5 = size_gb (st_size f)" "file_format s5 = fmt" "start s5 = time_at_start w"
    by (simp_all add: s5_def s4_def s3_def stop_engine_frame process_data_frame read_data_frame b)
  show "written (run eng w n fmt) =
           (if eng = Pandas \<or> 0 < n
            then [(''results/'' @ notebook_name eng @ ''_'' @ size_gb (st_size f) @ ''_'' @ fmt
                     @ ''_'' @ str_int (if eng = Pandas then 1 else n) @ ''.csv'',
                   \<lparr>header = result_header,
                    body = [[IntCell (if eng = Pandas then 1 else n),
                             FloatCell (float_sub (time_at_end w) (time_at_start w)),
                             StrCell (size_gb (st_size f)), StrCell fmt,
                             StrCell (engine_label eng)]]\<rparr>)]
            else [])"
    by (simp add: r written_tail f5 path_join_results)
qed

subsection \<open>Values in the small world\<close>

lemma size_gb_world0: "size_gb 6500000000 = ''6.5''"
proof -
  have a: "float_of_int (int 6500000000) = (6815744000000000, - 20)"
    by (simp add: float_of_int_def nearest_float_def shift_def round_div_def bit_length.simps
          Let_def)
  have b: "float_div (6815744000000000, - 20) (1000000000, 0) = (7318349394477056, - 50)"
    by (simp add: float_div_def nearest_float_def shift_def round_div_def bit_length.simps
          Let_def)
  have s: "str_nat 6 = ''6''" "str_nat 5 = ''5''"
    by (simp_all add: str_nat.simps digit_char_def)
  have t: "round_div 73183493944770560 1125899906842624 = 65"
    by (simp add: round_div_def Let_def)
  have c: "format_1f (7318349394477056, - 50) = ''6.5''"
    by (simp add: format_1f_def shift_def t s)
  show ?thesis
    unfolding size_gb_def a b c ..
qed

lemma str_int_8: "str_int 8 = ''8''" "str_int 4 = ''4''" "str_int 1 = ''1''"
  by (simp_all add: str_int_def str_nat.simps digit_char_def)

lemma world0_files:
  "data_dir world0 = ''../data''"
  "tsv_path world0 = ''../data/gene_info.tsv''"
  "parquet_path world0 = ''../data/gene_info.parquet''"
  "fs world0 ''../data/gene_info.tsv'' = Some \<lparr>st_size = 6500000000, table = gene_table\<rparr>"
  "fs world0 ''../data/gene_info.parquet'' = Some \<lparr>st_size = 4096, table = gene_table\<rparr>"
  by (simp_all add: world0_def data_dir_def tsv_path_def parquet_path_def path_join_def)

lemma gene_table_columns: "set column_names \<subseteq> set (columns gene_table)"
  by (simp add: column_names_def gene_table_def)



lemma tail_frame:
  "client (report eng w (write_result eng w (stop_timer w s))) = client s"
  "groups (report eng w (write_result eng w (stop_timer w s))) = groups s"
  "file_size (report eng w (write_result eng w (stop_timer w s))) = file_size s"
  "genes (report eng w (write_result eng w (stop_timer w s))) = genes s"
  by (simp_all add: report_def print_def write_result_def to_csv_def stop_timer_def)

lemma run_invalid_format:
  assumes "fs w (tsv_path w) = Some f" "fmt \<noteq> ''csv''" "fmt \<noteq> ''parquet''"
  shows "exc (run eng w n fmt) = Some NameError"
    and "stdout (run eng w n fmt) = [''invalid file format'', ''Filename: '' @ tsv_path w]"
    and "reads (run eng w n fmt) = []"
    and "written (run eng w n fmt) = []"
proof -
  define s2 where "s2 = start_engine eng w (start_timer w (setup_cell w (initial n fmt)))"
  note b = before_read [OF assms(1), where n = n and fmt = fmt and eng = eng, folded s2_def]
  have rd: "read_data eng w s2 =
      raise NameError (print (''Filename: '' @ filename s2) (print ''invalid file format'' s2))"
    using assms(2,3) b by (intro read_data_invalid) simp_all
  then have "exc (read_data eng w s2) \<noteq> None"
    by (simp add: raise_def)
  then have run: "run eng w n fmt = read_data eng w s2"
    by (simp add: run_after_setup [OF assms(1)] Let_def s2_def)
  show "exc (run eng w n fmt) = Some NameError"
    and "stdout (run eng w n fmt) = [''invalid file format'', ''Filename: '' @ tsv_path w]"
    and "reads (run eng w n fmt) = []"
    and "written (run eng w n fmt) = []"
    by (simp_all add: run rd raise_def print_def b)
qed

lemma run_missing_parquet_file:
  assumes "fs w (tsv_path w) = Some f" "fmt = ''parquet''" "fs w (parquet_path w) = None"
  shows "exc (run eng w n fmt) = Some EngineError"
    and "written (run eng w n fmt) = []"
proof -
  define s2 where "s2 = start_engine eng w (start_timer w (setup_cell w (initial n fmt)))"
  note b = before_read [OF assms(1), where n = n and fmt = fmt and eng = eng, folded s2_def]
  have e: "exc (read_data eng w s2) = Some EngineError"
    using assms(2,3) b by (intro read_data_missing_parquet) (simp_all add: parquet_path_def)
  then have run: "run eng w n fmt = read_data eng w s2"
    by (simp add: run_after_setup [OF assms(1)] Let_def s2_def)
  show "exc (run eng w n fmt) = Some EngineError"
    by (simp add: run e)
  show "written (run eng w n fmt) = []"
    by (simp add: run read_data_frame b)
qed

lemma run_keeps:
  assumes "fs w (tsv_path w) = Some f"
  shows "client (run eng w n fmt)
           = client (start_engine eng w (start_timer w (setup_cell w (initial n fmt))))"
    and "file_size (run eng w n fmt) = size_gb (st_size f)"
proof -
  define s2 where "s2 = start_engine eng w (start_timer w (setup_cell w (initial n fmt)))"
  define s3 where "s3 = read_data eng w s2"
  define s4 where "s4 = process_data eng w s3"
  define s5 where "s5 = (if eng = Pandas then s4 else stop_engine w s4)"
  note b = before_read [OF assms(1), where n = n and fmt = fmt and eng = eng, folded s2_def]
  have run: "run eng w n fmt =
      (if exc s3 \<noteq> None then s3 else if exc s4 \<noteq> None then s4
       else report eng w (write_result eng w (stop_timer w s5)))"
    by (simp add: run_after_setup [OF assms(1)] Let_def s2_def s3_def s4_def s5_def)
  have c: "client s3 = client s2" "client s4 = client s2" "client s5 = client s2"
    "file_size s3 = size_gb (st_size f)" "file_size s4 = size_gb (st_size f)"
    "file_size s5 = size_gb (st_size f)"
    by (simp_all add: s5_def s4_def s3_def stop_engine_frame process_data_frame read_data_frame b)
  show "client (run eng w n fmt)
           = client (start_engine eng w (start_timer w (setup_cell w (initial n fmt))))"
    by (simp add: run tail_frame c flip: s2_def)
  show "file_size (run eng w n fmt) = size_gb (st_size f)"
    by (simp add: run tail_frame c)
qed


subsection \<open>The group table of a run\<close>

lemma process_data_result:
  assumes "exc (process_data eng w s) = None"
  shows "\<exists>g. genes s = Some g
           \<and> count_groups eng (tie_rank w) g = Inr (groups (process_data eng w s))"
  using assms by (auto simp: process_data_def raise_def split: option.splits sum.splits)

lemma run_groups:
  assumes "exc (run eng w n fmt) = None"
  shows "\<exists>g. genes (run eng w n fmt) = Some g
           \<and> count_groups eng (tie_rank w) g = Inr (groups (run eng w n fmt))"
proof (cases "fs w (tsv_path w)")
  case None
  with assms show ?thesis
    by (simp add: run_missing_tsv)
next
  case (Some f)
  define s2 where "s2 = start_engine eng w (start_timer w (setup_cell w (initial n fmt)))"
  define s3 where "s3 = read_data eng w s2"
  define s4 where "s4 = process_data eng w s3"
  define s5 where "s5 = (if eng = Pandas then s4 else stop_engine w s4)"
  have run: "run eng w n fmt =
      (if exc s3 \<noteq> None then s3 else if exc s4 \<noteq> None then s4
       else report eng w (write_result eng w (stop_timer w s5)))"
    by (simp add: run_after_setup [OF Some] Let_def s2_def s3_def s4_def s5_def)
  from assms have e: "exc s3 = None" "exc s4 = None"
    by (auto simp: run split: if_splits)
  then have r: "run eng w n fmt = report eng w (write_result eng w (stop_timer w s5))"
    by (simp add: run)
  from process_data_result [of eng w s3] e(2)
  obtain g where g: "genes s3 = Some g" "count_groups eng (tie_rank w) g = Inr (groups s4)"
    by (auto simp: s4_def)
  have "genes s5 = Some g" "groups s5 = groups s4"
    using g(1) by (simp_all add: s5_def s4_def stop_engine_frame process_data_frame)
  with g(2) show ?thesis
    by (simp add: r tail_frame)
qed

subsection \<open>Names of result files\<close>

lemma notebook_name_no_underscore: "CHR ''_'' \<notin> set (notebook_name eng)"
  by (cases eng) (simp_all add: notebook_name_def)

lemma notebook_name_inj: "notebook_name a = notebook_name b \<Longrightarrow> a = b"
  by (cases a; cases b) (simp_all add: notebook_name_def)

lemma engine_label_inj: "engine_label a = engine_label b \<Longrightarrow> a = b"
  by (cases a; cases b) (simp_all add: engine_label_def)

lemma result_name_inj:
  assumes "fa = ''csv'' \<or> fa = ''parquet''" "fb = ''csv'' \<or> fb = ''parquet''"
    and "0 \<le> ka" "0 \<le> kb"
    and "''results/'' @ notebook_name ea @ ''_'' @ sa @ ''_'' @ fa @ ''_'' @ str_int ka @ ''.csv''
       = ''results/'' @ notebook_name eb @ ''_'' @ sb @ ''_'' @ fb @ ''_'' @ str_int kb @ ''.csv''"
    and "CHR ''_'' \<notin> set sa" "CHR ''_'' \<notin> set sb"
  shows "ea = eb \<and> sa = sb \<and> fa = fb \<and> ka = kb"
proof -
  from assms(5)
  have 1: "notebook_name ea @ CHR ''_'' # (sa @ ''_'' @ fa @ ''_'' @ str_int ka @ ''.csv'')
         = notebook_name eb @ CHR ''_'' # (sb @ ''_'' @ fb @ ''_'' @ str_int kb @ ''.csv'')"
    by simp
  from split_at_first [OF notebook_name_no_underscore notebook_name_no_underscore 1]
  have e: "notebook_name ea = notebook_name eb"
    and 2: "sa @ CHR ''_'' # (fa @ ''_'' @ str_int ka @ ''.csv'')
          = sb @ CHR ''_'' # (fb @ ''_'' @ str_int kb @ ''.csv'')"
    by simp_all
  from split_at_first [OF assms(6,7) 2]
  have s: "sa = sb"
    and 3: "fa @ CHR ''_'' # (str_int ka @ ''.csv'') = fb @ CHR ''_'' # (str_int kb @ ''.csv'')"
    by simp_all
  have "CHR ''_'' \<notin> set fa" "CHR ''_'' \<notin> set fb"
    using assms(1,2) by auto
  from split_at_first [OF this 3]
  have f: "fa = fb" and "str_int ka @ ''.csv'' = str_int kb @ ''.csv''"
    by simp_all
  then have "str_int ka = str_int kb"
    by simp
  then have "ka = kb"
    using assms(3,4) by (rule str_int_inj [rotated 2])
  with e s f show ?thesis
    by (simp add: notebook_name_inj)
qed

lemma size_gb_other: "size_gb 6540000000 = ''6.5''"
proof -
  have a: "float_of_int (int 6540000000) = (6857687040000000, - 20)"
    by (simp add: float_of_int_def nearest_float_def shift_def round_div_def bit_length.simps
          Let_def)
  have b: "float_div (6857687040000000, - 20) (1000000000, 0) = (7363385390750761, - 50)"
    by (simp add: float_div_def nearest_float_def shift_def round_div_def bit_length.simps
          Let_def)
  have s: "str_nat 6 = ''6''" "str_nat 5 = ''5''"
    by (simp_all add: str_nat.simps digit_char_def)
  have t: "round_div 73633853907507610 1125899906842624 = 65"
    by (simp add: round_div_def Let_def)
  have c: "format_1f (7363385390750761, - 50) = ''6.5''"
    by (simp add: format_1f_def shift_def t s)
  show ?thesis
    unfolding size_gb_def a b c ..
qed

lemma other_worlds_files:
  "tsv_path world_without_tsv = ''../data/gene_info.tsv''"
  "parquet_path world_without_tsv = ''../data/gene_info.parquet''"
  "fs world_without_tsv ''../data/gene_info.tsv'' = None"
  "fs world_without_tsv ''../data/gene_info.parquet'' = Some \<lparr>st_size = 4096, table = gene_table\<rparr>"
  "tsv_path world_without_parquet = ''../data/gene_info.tsv''"
  "parquet_path world_without_parquet = ''../data/gene_info.parquet''"
  "fs world_without_parquet ''../data/gene_info.tsv''
     = Some \<lparr>st_size = 6500000000, table = gene_table\<rparr>"
  "fs world_without_parquet ''../data/gene_info.parquet'' = None"
  "tsv_path world_larger_tsv = ''../data/gene_info.tsv''"
  "fs world_larger_tsv ''../data/gene_info.tsv''
     = Some \<lparr>st_size = 6540000000, table = gene_table\<rparr>"
  "time_at_start world_larger_tsv = time_at_start world0"
  "time_at_end world_larger_tsv = time_at_end world0"
  by (simp_all add: world_without_tsv_def world_without_parquet_def world_larger_tsv_def
        world0_def tsv_path_def parquet_path_def data_dir_def path_join_def)

section \<open>The claims\<close>




text \<open>
  Claim C2, on the code. With the format \<open>json\<close> the Dask notebook prints
  \<open>invalid file format\<close> and the file name, reads no data file and writes no result; but
  the statement after the branches reads \<open>genes\<close>, which no branch has bound, so the run
  ends with an uncaught \<open>NameError\<close>.
\<close>

theorem invalid_format_ends_in_name_error:
  "exc (run Dask world0 8 ''json'') = Some NameError
   \<and> stdout (run Dask world0 8 ''json'')
       = [''invalid file format'', ''Filename: ../data/gene_info.tsv'']
   \<and> reads (run Dask world0 8 ''json'') = []
   \<and> written (run Dask world0 8 ''json'') = []"
proof -
  have h: "fs world0 (tsv_path world0) = Some \<lparr>st_size = 6500000000, table = gene_table\<rparr>"
    by (simp add: world0_files)
  have f: "''json'' \<noteq> ''csv''" "''json'' \<noteq> ''parquet''"
    by simp_all
  from run_invalid_format [OF h f, of Dask 8] show ?thesis
    by (simp add: world0_files)
qed

text \<open>
  Claim C3. When the TSV file is missing, the setup cell raises \<open>FileNotFoundError\<close>
  (from \<open>os.path.getsize\<close>), whatever the format; when it is present, the format is
  \<open>parquet\<close> and the parquet file is missing, the read of the engine raises. No cell
  catches an exception, so the run ends with it, and no result file is written.
\<close>

theorem missing_input_raises:
  assumes "fs w (tsv_path w) = None \<or> fmt = ''parquet'' \<and> fs w (parquet_path w) = None"
  shows "exc (run eng w n fmt) =
           Some (if fs w (tsv_path w) = None then FileNotFoundError else EngineError)
       \<and> written (run eng w n fmt) = []"
proof (cases "fs w (tsv_path w)")
  case None
  then show ?thesis
    by (simp add: run_missing_tsv initial_def)
next
  case (Some f)
  with assms have "fmt = ''parquet''" "fs w (parquet_path w) = None"
    by simp_all
  from run_missing_parquet_file [OF Some this, of eng n] Some show ?thesis
    by simp
qed

theorem missing_input_raises_witness:
  "fs world_without_tsv (tsv_path world_without_tsv) = None
   \<and> exc (run Dask world_without_tsv 8 ''csv'') = Some FileNotFoundError
   \<and> written (run Dask world_without_tsv 8 ''csv'') = []
   \<and> fs world_without_parquet (parquet_path world_without_parquet) = None
   \<and> exc (run Pandas world_without_parquet 1 ''parquet'') = Some EngineError
   \<and> written (run Pandas world_without_parquet 1 ''parquet'') = []"
proof -
  have t: "fs world_without_tsv (tsv_path world_without_tsv) = None"
    by (simp add: other_worlds_files)
  then have h1: "fs world_without_tsv (tsv_path world_without_tsv) = None
           \<or> ''csv'' = ''parquet''
             \<and> fs world_without_tsv (parquet_path world_without_tsv) = None"
    by simp
  have p: "fs world_without_parquet (parquet_path world_without_parquet) = None"
    and p': "fs world_without_parquet (tsv_path world_without_parquet) \<noteq> None"
    by (simp_all add: other_worlds_files)
  then have h2: "fs world_without_parquet (tsv_path world_without_parquet) = None
           \<or> ''parquet'' = ''parquet''
             \<and> fs world_without_parquet (parquet_path world_without_parquet) = None"
    by simp
  from missing_input_raises [OF h1, of Dask 8] missing_input_raises [OF h2, of Pandas 1]
    t p p'
  show ?thesis
    by simp
qed




text \<open>
  Claim C5, as stated, fails: Pandas, Dask and cuDF leave the rows with a missing key out
  of the grouping. On a table whose third protein-coding row has the taxonomy id \<open>NA\<close>
  the csv branch of the Pandas notebook gives a frame of three rows, and the group table
  has the one row \<open>9606, 2\<close>: the counts sum to 2, not to 3.
\<close>

theorem missing_key_rows_not_counted:
  "read_branch Pandas ''csv'' na_table = Inr na_frame_csv
   \<and> finish_read Pandas na_frame_csv = Inr na_genes
   \<and> length (rows na_genes) = 3
   \<and> count_groups Pandas (tie_rank world0) na_genes = Inr [(Some ''9606'', 2)]"
  by (simp add: read_branch_def read_csv_def query_eq_def finish_read_def rename_columns_def
        na_table_def na_frame_csv_def na_genes_def world0_def
        texts_def column_names_def cell_of_def keep_cells_def parse_na_def
        na_values_def pandas_na_values_def count_groups_def groupby_size_def column_values_def
        List.map_filter_def sort_values_desc_def Let_def)

text \<open>
  Claim C5, amended. For every frame (a cell in every row for each of its distinct column
  labels) with a column \<open>tax_id\<close>, the group table has one row per distinct value of
  \<open>tax_id\<close> that is counted, with the number of rows that carry it, and the counts sum
  to the number of rows whose \<open>tax_id\<close> is counted: Pandas, Dask and cuDF count the
  values that are not missing, Spark counts the missing value as a group of its own. When
  no row has a missing \<open>tax_id\<close>, the counts sum to the number of rows.
\<close>

theorem group_counts:
  assumes "rectangular g" "''tax_id'' \<in> set (columns g)" "distinct (columns g)"
  shows "\<exists>grp. count_groups eng rank g = Inr grp
     \<and> distinct (map fst grp)
     \<and> (\<forall>k n. (k, n) \<in> set grp \<longleftrightarrow>
           (eng = Spark \<or> k \<noteq> None) \<and> 0 < n
           \<and> n = length (filter (\<lambda>r. map_of (zip (columns g) r) ''tax_id'' = Some k) (rows g)))
     \<and> sum_list (map snd grp)
         = length (filter (\<lambda>r. eng = Spark \<or> map_of (zip (columns g) r) ''tax_id'' \<noteq> Some None)
                     (rows g))
     \<and> ((\<forall>r \<in> set (rows g). map_of (zip (columns g) r) ''tax_id'' \<noteq> Some None)
           \<longrightarrow> sum_list (map snd grp) = length (rows g))"
proof -
  from count_groups_rows [OF assms(1,2), of eng rank]
  obtain grp where grp: "count_groups eng rank g = Inr grp" "distinct (map fst grp)"
    "\<forall>k n. (k, n) \<in> set grp \<longleftrightarrow>
           (eng = Spark \<or> k \<noteq> None) \<and> 0 < n
           \<and> n = length (filter (\<lambda>r. map_of (zip (columns g) r) ''tax_id'' = Some k) (rows g))"
    "sum_list (map snd grp)
         = length (filter (\<lambda>r. eng = Spark \<or> map_of (zip (columns g) r) ''tax_id'' \<noteq> Some None)
                     (rows g))"
    by blast
  have "sum_list (map snd grp) = length (rows g)"
    if "\<forall>r \<in> set (rows g). map_of (zip (columns g) r) ''tax_id'' \<noteq> Some None"
  proof -
    from that
    have "filter (\<lambda>r. eng = Spark \<or> map_of (zip (columns g) r) ''tax_id'' \<noteq> Some None) (rows g)
        = rows g"
      by (simp add: filter_id_conv)
    then show ?thesis
      by (simp add: grp(4))
  qed
  with grp show ?thesis
    by blast
qed

theorem group_counts_witness:
  "rectangular small_genes \<and> ''tax_id'' \<in> set (columns small_genes)
   \<and> distinct (columns small_genes)
   \<and> (\<exists>grp. count_groups Dask (tie_rank world0) small_genes = Inr grp
         \<and> grp = [(Some ''9606'', 2), (Some ''4565'', 1)]
         \<and> distinct (map fst grp)
         \<and> sum_list (map snd grp) = length (rows small_genes))"
proof -
  have h1: "rectangular small_genes"
    by (simp add: rectangular_def small_genes_def texts_def)
  have h2: "''tax_id'' \<in> set (columns small_genes)"
    by (simp add: small_genes_def)
  have h3: "distinct (columns small_genes)"
    by (simp add: small_genes_def)
  have v: "count_groups Dask (tie_rank world0) small_genes = Inr [(Some ''9606'', 2), (Some ''4565'', 1)]"
    by (simp add: small_genes_def texts_def cell_of_def count_groups_def groupby_size_def
          column_values_def List.map_filter_def sort_values_desc_def Let_def world0_def)
  have c: "\<forall>r \<in> set (rows small_genes).
             map_of (zip (columns small_genes) r) ''tax_id'' \<noteq> Some None"
    by (simp add: small_genes_def texts_def)
  from group_counts [OF h1 h2 h3, of Dask "tie_rank world0"] v c
  have "distinct (map fst [(Some ''9606'', 2 :: nat), (Some ''4565'', 1)])
      \<and> sum_list (map snd [(Some ''9606'', 2 :: nat), (Some ''4565'', 1)])
          = length (rows small_genes)"
    by auto
  with h1 h2 h3 v show ?thesis
    by simp
qed

text \<open>
  Claim C6. In every run, whatever its inputs and however it ends, the group/count table
  bound to \<open>groups\<close> is ordered by count, non-increasing: each count is at least every
  count after it. In a run that ends without an exception the table holds the rows of the
  grouping of the frame \<open>genes\<close>, each once: sorting has moved rows only.
\<close>

theorem groups_sorted_by_count:
  "sorted_wrt (\<lambda>a b. b \<le> a) (map snd (groups (run eng w n fmt)))
   \<and> (exc (run eng w n fmt) = None \<longrightarrow>
        (\<exists>g grp. genes (run eng w n fmt) = Some g
           \<and> groupby_size (eng \<noteq> Spark) ''tax_id'' g = Inr grp
           \<and> set (groups (run eng w n fmt)) = set grp
           \<and> length (groups (run eng w n fmt)) = length grp))"
proof (intro conjI impI)
  show "sorted_wrt (\<lambda>a b. b \<le> a) (map snd (groups (run eng w n fmt)))"
  proof (cases "fs w (tsv_path w)")
    case None
    then show ?thesis
      by (simp add: run_missing_tsv initial_def)
  next
    case (Some f)
    define s2 where "s2 = start_engine eng w (start_timer w (setup_cell w (initial n fmt)))"
    define s3 where "s3 = read_data eng w s2"
    define s4 where "s4 = process_data eng w s3"
    define s5 where "s5 = (if eng = Pandas then s4 else stop_engine w s4)"
    note b = before_read [OF Some, where n = n and fmt = fmt and eng = eng, folded s2_def]
    have run: "run eng w n fmt =
        (if exc s3 \<noteq> None then s3 else if exc s4 \<noteq> None then s4
         else report eng w (write_result eng w (stop_timer w s5)))"
      by (simp add: run_after_setup [OF Some] Let_def s2_def s3_def s4_def s5_def)
    have g3: "groups s3 = []"
      by (simp add: s3_def read_data_frame b)
    then have g4: "sorted_wrt (\<lambda>a b. b \<le> a) (map snd (groups s4))"
      unfolding s4_def by (intro groups_process_data) simp
    have g5: "groups s5 = groups s4"
      by (simp add: s5_def stop_engine_frame)
    show ?thesis
      using g3 g4 by (simp add: run tail_frame g5)
  qed
next
  assume "exc (run eng w n fmt) = None"
  then obtain g where g: "genes (run eng w n fmt) = Some g"
    "count_groups eng (tie_rank w) g = Inr (groups (run eng w n fmt))"
    using run_groups by blast
  then obtain grp where grp: "groupby_size (eng \<noteq> Spark) ''tax_id'' g = Inr grp"
    "groups (run eng w n fmt) = sort_values_desc (tie_rank w) grp"
    by (auto simp: count_groups_def split: sum.splits)
  then show "\<exists>g grp. genes (run eng w n fmt) = Some g
           \<and> groupby_size (eng \<noteq> Spark) ''tax_id'' g = Inr grp
           \<and> set (groups (run eng w n fmt)) = set grp
           \<and> length (groups (run eng w n fmt)) = length grp"
    using g(1) by (simp add: sort_values_desc_same_rows)
qed

theorem groups_sorted_by_count_witness:
  "exc (run Dask world0 8 ''csv'') = None
   \<and> sorted_wrt (\<lambda>a b. b \<le> a) (map snd (groups (run Dask world0 8 ''csv'')))
   \<and> (\<exists>g grp. genes (run Dask world0 8 ''csv'') = Some g
           \<and> groupby_size (Dask \<noteq> Spark) ''tax_id'' g = Inr grp
           \<and> set (groups (run Dask world0 8 ''csv'')) = set grp
           \<and> length (groups (run Dask world0 8 ''csv'')) = length grp)"
proof -
  have h: "fs world0 (tsv_path world0) = Some \<lparr>st_size = 6500000000, table = gene_table\<rparr>"
    by (simp add: world0_files)
  have d: "''csv'' = ''csv'' \<and> fs world0 (tsv_path world0)
              = Some \<lparr>st_size = 6500000000, table = gene_table\<rparr>
           \<or> ''csv'' = ''parquet'' \<and> fs world0 (parquet_path world0)
              = Some \<lparr>st_size = 6500000000, table = gene_table\<rparr>"
    using h by simp
  have c: "set column_names \<subseteq> set (columns (table \<lparr>st_size = 6500000000, table = gene_table\<rparr>))"
    using gene_table_columns by simp
  have e: "exc (run Dask world0 8 ''csv'') = None"
    by (rule run_succeeds(1) [OF h d c])
  from groups_sorted_by_count [of Dask world0 8 "''csv''"] e show ?thesis
    by simp
qed

text \<open>
  Claim C7, as stated, fails for the input size: the file name carries the size of the
  TSV file in GB rounded to one decimal, so two runs of the Dask notebook with the same
  core count and format on TSV files of 6500000000 and of 6540000000 bytes write result
  files of the same name.
\<close>

theorem same_name_for_different_sizes:
  "fs world0 (tsv_path world0) = Some \<lparr>st_size = 6500000000, table = gene_table\<rparr>
   \<and> fs world_larger_tsv (tsv_path world_larger_tsv)
       = Some \<lparr>st_size = 6540000000, table = gene_table\<rparr>
   \<and> map fst (written (run Dask world0 8 ''csv'')) = [''results/3-DaskDataframe_6.5_csv_8.csv'']
   \<and> map fst (written (run Dask world_larger_tsv 8 ''csv''))
       = [''results/3-DaskDataframe_6.5_csv_8.csv'']"
proof -
  have h: "fs world0 (tsv_path world0) = Some \<lparr>st_size = 6500000000, table = gene_table\<rparr>"
    by (simp add: world0_files)
  have d: "''csv'' = ''csv'' \<and> fs world0 (tsv_path world0)
              = Some \<lparr>st_size = 6500000000, table = gene_table\<rparr>
           \<or> ''csv'' = ''parquet'' \<and> fs world0 (parquet_path world0)
              = Some \<lparr>st_size = 6500000000, table = gene_table\<rparr>"
    using h by simp
  have c: "set column_names \<subseteq> set (columns (table \<lparr>st_size = 6500000000, table = gene_table\<rparr>))"
    using gene_table_columns by simp
  have h': "fs world_larger_tsv (tsv_path world_larger_tsv)
       = Some \<lparr>st_size = 6540000000, table = gene_table\<rparr>"
    by (simp add: other_worlds_files)
  have d': "''csv'' = ''csv'' \<and> fs world_larger_tsv (tsv_path world_larger_tsv)
              = Some \<lparr>st_size = 6540000000, table = gene_table\<rparr>
           \<or> ''csv'' = ''parquet'' \<and> fs world_larger_tsv (parquet_path world_larger_tsv)
              = Some \<lparr>st_size = 6540000000, table = gene_table\<rparr>"
    using h' by simp
  have c': "set column_names \<subseteq> set (columns (table \<lparr>st_size = 6540000000, table = gene_table\<rparr>))"
    using gene_table_columns by simp
  from run_succeeds(2) [OF h d c, of Dask 8] run_succeeds(2) [OF h' d' c', of Dask 8] h h'
  show ?thesis
    by (simp add: size_gb_world0 size_gb_other str_int_8 notebook_name_def)
qed

text \<open>
  Claim C7, amended. A result file is named
  \<open>results/{notebook}_{size}_{format}_{cores}.csv\<close> from the cells of the row it holds:
  the core count, the size string (GB to one decimal), the format and the engine. So the
  files of two runs have the same name exactly when their rows agree in \<open>cores\<close>,
  \<open>size\<close>, \<open>format\<close> and \<open>dataframe\<close>.
\<close>

theorem result_name_encodes_row:
  assumes "written (run e1 w1 n1 f1)
             = [(p1, \<lparr>header = h1, body = [[IntCell k1, t1, StrCell s1, StrCell g1, StrCell d1]]\<rparr>)]"
    and "written (run e2 w2 n2 f2)
             = [(p2, \<lparr>header = h2, body = [[IntCell k2, t2, StrCell s2, StrCell g2, StrCell d2]]\<rparr>)]"
  shows "p1 = ''results/'' @ notebook_name e1 @ ''_'' @ s1 @ ''_'' @ g1 @ ''_'' @ str_int k1 @ ''.csv''
       \<and> d1 = engine_label e1
       \<and> (p1 = p2 \<longleftrightarrow> k1 = k2 \<and> s1 = s2 \<and> g1 = g2 \<and> d1 = d2)"
proof -
  from written_run_cases [of e1 w1 n1 f1] assms(1)
  obtain fa :: data_file where a: "f1 = ''csv'' \<or> f1 = ''parquet''" "e1 = Pandas \<or> 0 < n1"
    "p1 = ''results/'' @ notebook_name e1 @ ''_'' @ size_gb (st_size fa) @ ''_'' @ f1 @ ''_''
            @ str_int (if e1 = Pandas then 1 else n1) @ ''.csv''"
    "k1 = (if e1 = Pandas then 1 else n1)" "s1 = size_gb (st_size fa)" "g1 = f1"
    "d1 = engine_label e1"
    by auto
  from written_run_cases [of e2 w2 n2 f2] assms(2)
  obtain fb :: data_file where b: "f2 = ''csv'' \<or> f2 = ''parquet''" "e2 = Pandas \<or> 0 < n2"
    "p2 = ''results/'' @ notebook_name e2 @ ''_'' @ size_gb (st_size fb) @ ''_'' @ f2 @ ''_''
            @ str_int (if e2 = Pandas then 1 else n2) @ ''.csv''"
    "k2 = (if e2 = Pandas then 1 else n2)" "s2 = size_gb (st_size fb)" "g2 = f2"
    "d2 = engine_label e2"
    by auto
  have k: "0 \<le> k1" "0 \<le> k2"
    using a(2,4) b(2,4) by auto
  have p: "p1 = ''results/'' @ notebook_name e1 @ ''_'' @ s1 @ ''_'' @ g1 @ ''_'' @ str_int k1 @ ''.csv''"
    "p2 = ''results/'' @ notebook_name e2 @ ''_'' @ s2 @ ''_'' @ g2 @ ''_'' @ str_int k2 @ ''.csv''"
    using a b by simp_all
  have u: "CHR ''_'' \<notin> set s1" "CHR ''_'' \<notin> set s2"
    by (simp_all add: a(5) b(5) underscore_size_gb)
  have v: "g1 = ''csv'' \<or> g1 = ''parquet''" "g2 = ''csv'' \<or> g2 = ''parquet''"
    using a(1,6) b(1,6) by simp_all
  have "p1 = p2 \<longleftrightarrow> k1 = k2 \<and> s1 = s2 \<and> g1 = g2 \<and> d1 = d2"
  proof
    assume "p1 = p2"
    then have "''results/'' @ notebook_name e1 @ ''_'' @ s1 @ ''_'' @ g1 @ ''_'' @ str_int k1 @ ''.csv''
       = ''results/'' @ notebook_name e2 @ ''_'' @ s2 @ ''_'' @ g2 @ ''_'' @ str_int k2 @ ''.csv''"
      using p by simp
    from result_name_inj [OF v k this u]
    show "k1 = k2 \<and> s1 = s2 \<and> g1 = g2 \<and> d1 = d2"
      by (simp add: a(7) b(7))
  next
    assume e: "k1 = k2 \<and> s1 = s2 \<and> g1 = g2 \<and> d1 = d2"
    then have "e1 = e2"
      using a(7) b(7) by (auto dest: engine_label_inj)
    with e show "p1 = p2"
      using p by simp
  qed
  with p(1) a(7) show ?thesis
    by simp
qed

theorem result_name_encodes_row_witness:
  "written (run Dask world0 8 ''csv'')
     = [(''results/3-DaskDataframe_6.5_csv_8.csv'',
         \<lparr>header = result_header,
          body = [[IntCell 8, FloatCell (float_sub (time_at_end world0) (time_at_start world0)),
                   StrCell ''6.5'', StrCell ''csv'', StrCell ''Dask'']]\<rparr>)]
   \<and> written (run Spark world0 4 ''parquet'')
     = [(''results/4-SparkDataframe_6.5_parquet_4.csv'',
         \<lparr>header = result_header,
          body = [[IntCell 4, FloatCell (float_sub (time_at_end world0) (time_at_start world0)),
                   StrCell ''6.5'', StrCell ''parquet'', StrCell ''Spark'']]\<rparr>)]
   \<and> ''results/3-DaskDataframe_6.5_csv_8.csv''
       = ''results/'' @ notebook_name Dask @ ''_'' @ ''6.5'' @ ''_'' @ ''csv'' @ ''_'' @ str_int 8 @ ''.csv''
   \<and> ''results/3-DaskDataframe_6.5_csv_8.csv'' \<noteq> ''results/4-SparkDataframe_6.5_parquet_4.csv''"
proof -
  have h: "fs world0 (tsv_path world0) = Some \<lparr>st_size = 6500000000, table = gene_table\<rparr>"
    by (simp add: world0_files)
  have d1: "''csv'' = ''csv'' \<and> fs world0 (tsv_path world0)
              = Some \<lparr>st_size = 6500000000, table = gene_table\<rparr>
           \<or> ''csv'' = ''parquet'' \<and> fs world0 (parquet_path world0)
              = Some \<lparr>st_size = 6500000000, table = gene_table\<rparr>"
    using h by simp
  have c1: "set column_names \<subseteq> set (columns (table \<lparr>st_size = 6500000000, table = gene_table\<rparr>))"
    using gene_table_columns by simp
  have d2: "''parquet'' = ''csv'' \<and> fs world0 (tsv_path world0)
              = Some \<lparr>st_size = 4096, table = gene_table\<rparr>
           \<or> ''parquet'' = ''parquet'' \<and> fs world0 (parquet_path world0)
              = Some \<lparr>st_size = 4096, table = gene_table\<rparr>"
    by (simp add: world0_files)
  have c2: "set column_names \<subseteq> set (columns (table \<lparr>st_size = 4096, table = gene_table\<rparr>))"
    using gene_table_columns by simp
  have r1: "written (run Dask world0 8 ''csv'')
     = [(''results/3-DaskDataframe_6.5_csv_8.csv'',
         \<lparr>header = result_header,
          body = [[IntCell 8, FloatCell (float_sub (time_at_end world0) (time_at_start world0)),
                   StrCell ''6.5'', StrCell ''csv'', StrCell ''Dask'']]\<rparr>)]"
    using run_succeeds(2) [OF h d1 c1, of Dask 8]
    by (simp add: size_gb_world0 str_int_8 notebook_name_def engine_label_def)
  have r2: "written (run Spark world0 4 ''parquet'')
     = [(''results/4-SparkDataframe_6.5_parquet_4.csv'',
         \<lparr>header = result_header,
          body = [[IntCell 4, FloatCell (float_sub (time_at_end world0) (time_at_start world0)),
                   StrCell ''6.5'', StrCell ''parquet'', StrCell ''Spark'']]\<rparr>)]"
    using run_succeeds(2) [OF h d2 c2, of Spark 4]
    by (simp add: size_gb_world0 str_int_8 notebook_name_def engine_label_def)
  from result_name_encodes_row [OF r1 r2] r1 r2 show ?thesis
    by simp
qed

text \<open>
  Claim C8. Once the setup cell has found the TSV file, the Dask and Dask-cuDF notebooks
  start \<open>Client(n_workers=n_cores, threads_per_worker=1)\<close> when \<open>n_cores > 0\<close> and
  \<open>Client()\<close> otherwise, and the Spark notebook sets the master \<open>local[n_cores]\<close> when
  \<open>n_cores > 0\<close> and leaves the master unset otherwise; no later cell rebinds the context.
  So a core count of 0 gives a context with no explicit worker count, and a core count
  above 0 exactly that many workers.
\<close>

theorem context_sized_by_core_count:
  assumes "fs w (tsv_path w) = Some f"
  shows "(eng = Dask \<or> eng = DaskCuda \<longrightarrow>
            client (run eng w n fmt)
              = Some (if 0 < n then Client (Some n) (Some 1) else Client None None))
       \<and> (eng = Spark \<longrightarrow>
            client (run eng w n fmt)
              = Some (if 0 < n then SparkSession (Some (''local['' @ str_int n @ '']''))
                      else SparkSession None))"
  unfolding run_keeps(1) [OF assms] setup_cell_initial
  using assms by (auto simp: start_engine_def start_timer_def initial_def)

theorem context_sized_by_core_count_witness:
  "fs world0 (tsv_path world0) = Some \<lparr>st_size = 6500000000, table = gene_table\<rparr>
   \<and> client (run Dask world0 0 ''csv'') = Some (Client None None)
   \<and> client (run Dask world0 8 ''csv'') = Some (Client (Some 8) (Some 1))
   \<and> client (run Spark world0 0 ''csv'') = Some (SparkSession None)
   \<and> client (run Spark world0 8 ''csv'') = Some (SparkSession (Some ''local[8]''))"
proof -
  have h: "fs world0 (tsv_path world0) = Some \<lparr>st_size = 6500000000, table = gene_table\<rparr>"
    by (simp add: world0_files)
  show ?thesis
    using h context_sized_by_core_count [OF h, of Dask 0 "''csv''"]
      context_sized_by_core_count [OF h, of Dask 8 "''csv''"]
      context_sized_by_core_count [OF h, of Spark 0 "''csv''"]
      context_sized_by_core_count [OF h, of Spark 8 "''csv''"]
    by (simp add: str_int_8)
qed

text \<open>
  Claim C9. The rename step changes labels only: the rows (so their number and every
  cell) are the same, the frame has as many columns as before, every column labelled
  \<open>#tax_id\<close> is labelled \<open>tax_id\<close> afterwards, and every other label stays where it was.
\<close>

theorem rename_changes_only_the_label:
  "rows (rename_columns ''#tax_id'' ''tax_id'' df) = rows df
   \<and> length (columns (rename_columns ''#tax_id'' ''tax_id'' df)) = length (columns df)
   \<and> (\<forall>i < length (columns df).
         columns (rename_columns ''#tax_id'' ''tax_id'' df) ! i
           = (if columns df ! i = ''#tax_id'' then ''tax_id'' else columns df ! i))"
  by (simp add: rename_columns_def)

theorem rename_changes_only_the_label_witness:
  "rows (rename_columns ''#tax_id'' ''tax_id'' gene_table) = rows gene_table
   \<and> length (columns (rename_columns ''#tax_id'' ''tax_id'' gene_table)) = 8
   \<and> columns (rename_columns ''#tax_id'' ''tax_id'' gene_table) ! 0 = ''tax_id''
   \<and> columns (rename_columns ''#tax_id'' ''tax_id'' gene_table) ! 1 = ''GeneID''"
proof -
  note r = rename_changes_only_the_label [of gene_table]
  have len: "length (columns gene_table) = 8"
    by (simp add: gene_table_def)
  have c0: "columns gene_table ! 0 = ''#tax_id''" and c1: "columns gene_table ! 1 = ''GeneID''"
    by (simp_all add: gene_table_def)
  from r have a: "rows (rename_columns ''#tax_id'' ''tax_id'' gene_table) = rows gene_table"
    by (rule conjunct1)
  from r have b: "length (columns (rename_columns ''#tax_id'' ''tax_id'' gene_table))
      = length (columns gene_table)"
    by (rule conjunct1 [OF conjunct2])
  from r have c: "\<forall>i < length (columns gene_table).
      columns (rename_columns ''#tax_id'' ''tax_id'' gene_table) ! i
        = (if columns gene_table ! i = ''#tax_id'' then ''tax_id'' else columns gene_table ! i)"
    by (rule conjunct2 [OF conjunct2])
  from c len have "columns (rename_columns ''#tax_id'' ''tax_id'' gene_table) ! 0
      = (if columns gene_table ! 0 = ''#tax_id'' then ''tax_id'' else columns gene_table ! 0)"
    by simp
  with c0 have d0: "columns (rename_columns ''#tax_id'' ''tax_id'' gene_table) ! 0 = ''tax_id''"
    by simp
  from c len have "columns (rename_columns ''#tax_id'' ''tax_id'' gene_table) ! 1
      = (if columns gene_table ! 1 = ''#tax_id'' then ''tax_id'' else columns gene_table ! 1)"
    by simp
  with c1 have d1: "columns (rename_columns ''#tax_id'' ''tax_id'' gene_table) ! 1 = ''GeneID''"
    by simp
  from a b len d0 d1 show ?thesis
    by simp
qed

text \<open>
  Claim C10. The size of a run is the size of the TSV file, whatever the format. If the
  TSV file is missing, the run ends in \<open>FileNotFoundError\<close> and writes nothing, also for
  the format \<open>parquet\<close> and whether or not the parquet file is there. If it is present,
  \<open>file_size\<close> is its size in GB to one decimal, and a result file, when one is written,
  carries that string in its name and in the \<open>size\<close> cell of its row.
\<close>

theorem size_is_taken_from_the_tsv_file:
  "(fs w (tsv_path w) = None \<longrightarrow>
      exc (run eng w n fmt) = Some FileNotFoundError \<and> written (run eng w n fmt) = [])
   \<and> (\<forall>f. fs w (tsv_path w) = Some f \<longrightarrow>
         file_size (run eng w n fmt) = size_gb (st_size f)
         \<and> (written (run eng w n fmt) = []
            \<or> (\<exists>k t. written (run eng w n fmt) =
                 [(''results/'' @ notebook_name eng @ ''_'' @ size_gb (st_size f) @ ''_'' @ fmt
                     @ ''_'' @ str_int k @ ''.csv'',
                   \<lparr>header = [''cores'', ''time'', ''size'', ''format'', ''dataframe''],
                    body = [[IntCell k, FloatCell t, StrCell (size_gb (st_size f)),
                             StrCell fmt, StrCell (engine_label eng)]]\<rparr>)])))"
proof (intro conjI impI allI)
  assume "fs w (tsv_path w) = None"
  then show "exc (run eng w n fmt) = Some FileNotFoundError" "written (run eng w n fmt) = []"
    by (simp_all add: run_missing_tsv initial_def)
next
  fix f assume f: "fs w (tsv_path w) = Some f"
  then show "file_size (run eng w n fmt) = size_gb (st_size f)"
    by (rule run_keeps(2))
  from written_run_cases [of eng w n fmt] f
  show "written (run eng w n fmt) = []
            \<or> (\<exists>k t. written (run eng w n fmt) =
                 [(''results/'' @ notebook_name eng @ ''_'' @ size_gb (st_size f) @ ''_'' @ fmt
                     @ ''_'' @ str_int k @ ''.csv'',
                   \<lparr>header = [''cores'', ''time'', ''size'', ''format'', ''dataframe''],
                    body = [[IntCell k, FloatCell t, StrCell (size_gb (st_size f)),
                             StrCell fmt, StrCell (engine_label eng)]]\<rparr>)])"
    by (auto simp: result_header_def)
qed

theorem size_is_taken_from_the_tsv_file_witness:
  "fs world_without_tsv (tsv_path world_without_tsv) = None
   \<and> fs world_without_tsv (parquet_path world_without_tsv)
       = Some \<lparr>st_size = 4096, table = gene_table\<rparr>
   \<and> exc (run Dask world_without_tsv 8 ''parquet'') = Some FileNotFoundError
   \<and> written (run Dask world_without_tsv 8 ''parquet'') = []
   \<and> fs world0 (tsv_path world0) = Some \<lparr>st_size = 6500000000, table = gene_table\<rparr>
   \<and> file_size (run Dask world0 8 ''parquet'') = ''6.5''"
proof -
  have h1: "fs world_without_tsv (tsv_path world_without_tsv) = None"
    and h1': "fs world_without_tsv (parquet_path world_without_tsv)
       = Some \<lparr>st_size = 4096, table = gene_table\<rparr>"
    by (simp_all add: other_worlds_files)
  have h2: "fs world0 (tsv_path world0) = Some \<lparr>st_size = 6500000000, table = gene_table\<rparr>"
    by (simp add: world0_files)
  note a = size_is_taken_from_the_tsv_file [of world_without_tsv Dask 8 "''parquet''"]
  note b = size_is_taken_from_the_tsv_file [of world0 Dask 8 "''parquet''"]
  from a h1 have "exc (run Dask world_without_tsv 8 ''parquet'') = Some FileNotFoundError
      \<and> written (run Dask world_without_tsv 8 ''parquet'') = []"
    by blast
  moreover from b h2 have "file_size (run Dask world0 8 ''parquet'') = size_gb 6500000000"
    by fastforce
  ultimately show ?thesis
    using h1 h1' h2 by (simp add: size_gb_world0)
qed

end
